theory Spec2Isabelle
  imports Complex_Main "HOL-Library.AList" "HOL-Library.Log_Nat"
begin

section \<open>Values, errors and tabular results\<close>

text \<open>
  A value as SQLite hands it to Python: NULL (\<open>None\<close>), an INTEGER, a REAL or a TEXT.
  A REAL is an IEEE double; the model keeps the rational number the double stands for.
\<close>

datatype cell = Null | IntV int | RealV rat | TextV string

text \<open>
  The exceptions of the program. \<open>KeyError\<close> is the lookup of an absent column label or
  dictionary key, \<open>AttributeError\<close> the use of \<open>None\<close> as a frame, \<open>ValueError\<close> the
  DataFrame constructor refusing rows whose width differs from the number of column
  labels, \<open>DatabaseError\<close> an error raised by the storage engine.
  \<open>Unsupported\<close> marks a statement or a parameter value that lies outside the part of
  the storage engine that is modelled here; it stands for no behaviour of SQLite.
\<close>

datatype error = KeyError string | AttributeError | ValueError | DatabaseError | Unsupported

definition bind :: "error + 'a \<Rightarrow> ('a \<Rightarrow> error + 'b) \<Rightarrow> error + 'b" where
  "bind m f = (case m of Inl e \<Rightarrow> Inl e | Inr x \<Rightarrow> f x)"

text \<open>
  A pandas DataFrame with the default integer index: the column labels and the rows, each
  row holding one cell per column.
\<close>

record dataframe =
  columns :: "string list"
  rows :: "cell list list"

text \<open>
  The invariant of the frames this program filters: every row has one cell per column
  (the constructor enforces it) and no column label occurs twice.
\<close>

definition wf_df :: "dataframe \<Rightarrow> bool" where
  "wf_df df \<longleftrightarrow> distinct (columns df) \<and> list_all (\<lambda>r. length r = length (columns df)) (rows df)"

text \<open>\<open>pd.DataFrame(rows, columns=cols)\<close> on a list of tuples.\<close>

definition DataFrame :: "cell list list \<Rightarrow> string list \<Rightarrow> error + dataframe" where
  "DataFrame rs cols =
     (if list_all (\<lambda>r. length r = length cols) rs
      then Inr \<lparr>columns = cols, rows = rs\<rparr>
      else Inl ValueError)"

text \<open>\<open>df.empty\<close>: one of the two axes has length zero.\<close>

definition df_empty :: "dataframe \<Rightarrow> bool" where
  "df_empty df \<longleftrightarrow> rows df = [] \<or> columns df = []"

text \<open>The position of a column label.\<close>

fun index_of :: "string \<Rightarrow> string list \<Rightarrow> nat option" where
  "index_of c [] = None"
| "index_of c (x # xs) = (if x = c then Some 0 else map_option Suc (index_of c xs))"

text \<open>
  \<open>df[col]\<close>: the column as a series, or \<open>KeyError\<close>. This is \<open>df[col]\<close> for a label that
  occurs once among the columns, as every label of a well-formed frame does.
\<close>

definition getitem :: "dataframe \<Rightarrow> string \<Rightarrow> error + cell list" where
  "getitem df col =
     (case index_of col (columns df) of
        None \<Rightarrow> Inl (KeyError col)
      | Some i \<Rightarrow> Inr (map (\<lambda>r. r ! i) (rows df)))"

text \<open>
  \<open>series == value\<close> for a string value: elementwise, true exactly at the TEXT cells that
  hold the same string.
\<close>

definition series_eq :: "cell list \<Rightarrow> string \<Rightarrow> bool list" where
  "series_eq s v = map (\<lambda>c. c = TextV v) s"

text \<open>\<open>df[mask]\<close>: the rows at which the boolean mask is true, in order.\<close>

definition mask_rows :: "dataframe \<Rightarrow> bool list \<Rightarrow> dataframe" where
  "mask_rows df bs = df\<lparr>rows := map fst (filter snd (zip (rows df) bs))\<rparr>"

section \<open>The filter function\<close>

text \<open>The four sidebar selections (lines 62 to 65); \<open>''All''\<close> is the first option of each.\<close>

record filters =
  f_city :: string
  f_provider_type :: string
  f_food_type :: string
  f_meal_type :: string

text \<open>One step of \<open>apply_filters\<close>: \<open>if sel != "All": df = df[df[col] == sel]\<close>.\<close>

definition filter_step :: "string \<Rightarrow> string \<Rightarrow> dataframe \<Rightarrow> error + dataframe" where
  "filter_step sel col df =
     (if sel \<noteq> ''All''
      then bind (getitem df col) (\<lambda>s. Inr (mask_rows df (series_eq s sel)))
      else Inr df)"

text \<open>\<open>apply_filters\<close> (lines 99 to 110), with the sidebar selections as an argument.\<close>

definition apply_filters :: "filters \<Rightarrow> dataframe \<Rightarrow> error + dataframe" where
  "apply_filters f df =
     (if df_empty df then Inr df
      else bind (filter_step (f_city f) ''Location'' df) (\<lambda>df.
           bind (filter_step (f_provider_type f) ''Provider_Type'' df) (\<lambda>df.
           bind (filter_step (f_food_type f) ''Food_Type'' df) (\<lambda>df.
           filter_step (f_meal_type f) ''Meal_Type'' df))))"

text \<open>
  The active predicates of a selection: the column and the value of every selection
  other than \<open>''All''\<close>.
\<close>

definition active :: "filters \<Rightarrow> (string \<times> string) list" where
  "active f =
     filter (\<lambda>(col, v). v \<noteq> ''All'')
       [(''Location'', f_city f), (''Provider_Type'', f_provider_type f),
        (''Food_Type'', f_food_type f), (''Meal_Type'', f_meal_type f)]"

text \<open>The cell of a row under a column label.\<close>

definition cell_at :: "dataframe \<Rightarrow> cell list \<Rightarrow> string \<Rightarrow> cell option" where
  "cell_at df r col = map_option (\<lambda>i. r ! i) (index_of col (columns df))"

text \<open>A row satisfies a selection when each active predicate's column holds the value as TEXT.\<close>

definition satisfies :: "dataframe \<Rightarrow> filters \<Rightarrow> cell list \<Rightarrow> bool" where
  "satisfies df f r \<longleftrightarrow> list_all (\<lambda>(col, v). cell_at df r col = Some (TextV v)) (active f)"

text \<open>The test one step of the filter applies to a row.\<close>

definition keeps :: "dataframe \<Rightarrow> string \<Rightarrow> string \<Rightarrow> cell list \<Rightarrow> bool" where
  "keeps df sel col r \<longleftrightarrow> sel = ''All'' \<or> cell_at df r col = Some (TextV sel)"

section \<open>The query executor\<close>

text \<open>
  What a cursor holds after \<open>execute\<close>: a statement without a result set leaves
  \<open>description\<close> at \<open>None\<close> and nothing to fetch; a statement with one gives the column
  labels and the rows. \<open>lastrowid\<close> is the row identifier after a successful INSERT; after
  a SELECT the model leaves it at \<open>None\<close>, and the program reads it only after an INSERT.
\<close>

datatype result_set = NoResultSet | ResultSet "string list" "cell list list"

record cursor =
  result :: result_set
  lastrowid :: "int option"

definition description :: "cursor \<Rightarrow> string list option" where
  "description cur = (case result cur of NoResultSet \<Rightarrow> None | ResultSet cols rs \<Rightarrow> Some cols)"

definition fetchall :: "cursor \<Rightarrow> cell list list" where
  "fetchall cur = (case result cur of NoResultSet \<Rightarrow> [] | ResultSet cols rs \<Rightarrow> rs)"

text \<open>
  The storage engine behind the connection: it answers a statement text and its bound
  parameters, in a database state, with an error (the state is then unchanged) or with the
  new state and the cursor.
\<close>

type_synonym 'db engine = "'db \<Rightarrow> string \<Rightarrow> cell list \<Rightarrow> error + ('db \<times> cursor)"

text \<open>
  The one connection of the process (\<open>get_conn\<close>, lines 17 to 19): the database state and,
  for the record, every statement text handed to \<open>execute\<close> with the parameters bound to it.
\<close>

record 'db conn =
  db :: 'db
  executed :: "(string \<times> cell list) list"

text \<open>\<open>cur = conn.cursor(); cur.execute(query, params)\<close>.\<close>

definition execute :: "'db engine \<Rightarrow> 'db conn \<Rightarrow> string \<Rightarrow> cell list \<Rightarrow> 'db conn \<times> (error + cursor)" where
  "execute eng c query params =
     (case eng (db c) query params of
        Inl e \<Rightarrow> (c\<lparr>executed := executed c @ [(query, params)]\<rparr>, Inl e)
      | Inr (d, cur) \<Rightarrow> (\<lparr>db = d, executed = executed c @ [(query, params)]\<rparr>, Inr cur))"

text \<open>
  \<open>run_query\<close> (lines 22 to 32). \<open>conn.commit()\<close> ends the transaction; with the single
  connection of this program it changes nothing that a later statement reads, and the
  state has no separate uncommitted part.
\<close>

definition run_query ::
  "'db engine \<Rightarrow> 'db conn \<Rightarrow> string \<Rightarrow> cell list \<Rightarrow> bool \<Rightarrow> 'db conn \<times> (error + dataframe option)" where
  "run_query eng c query params as_df =
     (case execute eng c query params of
        (c', Inl e) \<Rightarrow> (c', Inl e)
      | (c', Inr cur) \<Rightarrow>
          if as_df then
            (let cols = (case description cur of Some d \<Rightarrow> d | None \<Rightarrow> []);
                 rs = fetchall cur
             in (c', bind (DataFrame rs cols) (\<lambda>df. Inr (Some df))))
          else (c', Inr None))"

text \<open>\<open>run_write\<close> (lines 35 to 40).\<close>

definition run_write ::
  "'db engine \<Rightarrow> 'db conn \<Rightarrow> string \<Rightarrow> cell list \<Rightarrow> 'db conn \<times> (error + int option)" where
  "run_write eng c query params =
     (case execute eng c query params of
        (c', Inl e) \<Rightarrow> (c', Inl e)
      | (c', Inr cur) \<Rightarrow> (c', Inr (lastrowid cur)))"

text \<open>\<open>load_table\<close> (lines 43 to 44): the table name is formatted into the statement text.\<close>

definition load_table :: "'db engine \<Rightarrow> 'db conn \<Rightarrow> string \<Rightarrow> 'db conn \<times> (error + dataframe option)" where
  "load_table eng c table_name = run_query eng c (''SELECT * FROM '' @ table_name) [] True"

section \<open>The database\<close>

text \<open>
  Modelled from the spec: the storage layout. The database file is not part of the source;
  the four tables, their columns and their keys are those the specification lists, and the
  source's statements name. Identifiers and quantities are integers, every other column is
  text, no column holds NULL. A field that occurs in two tables carries the alias the
  source's statements give its table (\<open>p\<close>, \<open>c\<close>), the receiver's name and city an \<open>r\<close>.
  Beside the tables the state holds the numbers the engine's random generator will yield
  next, which the engine draws on for a row identifier once the largest one is in use.
\<close>

record provider =
  p_Provider_ID :: int
  p_Name :: string
  p_Type :: string
  p_Address :: string
  p_City :: string
  p_Contact :: string

record receiver =
  Receiver_ID :: int
  r_Name :: string
  r_City :: string

record food_listing =
  Food_ID :: int
  Food_Name :: string
  Quantity :: int
  Expiry_Date :: string
  Location :: string
  Food_Type :: string
  Meal_Type :: string
  Provider_ID :: int

record claim =
  Claim_ID :: int
  c_Food_ID :: int
  c_Receiver_ID :: int
  Status :: string
  Timestamp :: string

record database =
  Providers :: "provider list"
  Receivers :: "receiver list"
  Food_Listings :: "food_listing list"
  Claims :: "claim list"
  rowid_random :: "nat \<Rightarrow> int"

subsection \<open>Double precision arithmetic\<close>

text \<open>
  SQLite computes \<open>COUNT(*)*100.0/(SELECT COUNT(*) ...)\<close> in IEEE doubles. \<open>to_double\<close>
  rounds a rational to the nearest number with a 53 bit significand, ties to the even
  significand; the exponent is not bounded, so this is the double as long as the number
  lies in the normal range, as products and quotients of row counts do.
\<close>

definition pow2 :: "int \<Rightarrow> rat" where
  "pow2 e = (if 0 \<le> e then 2 ^ nat e else 1 / 2 ^ nat (- e))"

text \<open>The binary exponent of a positive rational: \<open>pow2 (ilog2 x) \<le> x < pow2 (ilog2 x + 1)\<close>.\<close>

definition ilog2 :: "rat \<Rightarrow> int" where
  "ilog2 x =
     (let (p, q) = quotient_of x; k = bitlen p - bitlen q
      in if pow2 k \<le> x then k else k - 1)"

definition round_even :: "rat \<Rightarrow> int" where
  "round_even x =
     (let n = \<lfloor>x\<rfloor>; d = x - of_int n
      in if d < 1 / 2 then n else if 1 / 2 < d then n + 1 else if even n then n else n + 1)"

definition to_double :: "rat \<Rightarrow> rat" where
  "to_double x =
     (if x = 0 then 0
      else let a = \<bar>x\<bar>; e = ilog2 a - 52; m = of_int (round_even (a / pow2 e)) * pow2 e
           in if x < 0 then - m else m)"

text \<open>\<open>n*100.0/m\<close> on two counts; SQLite gives NULL for a division by zero.\<close>

definition percentage :: "nat \<Rightarrow> nat \<Rightarrow> cell" where
  "percentage n m =
     (if m = 0 then Null
      else RealV (to_double (to_double (to_double (of_nat n) * 100) / to_double (of_nat m))))"

subsection \<open>The statements of the program\<close>

text \<open>The statement texts, as the source writes them.\<close>

definition recent_listings_sql :: string where
  "recent_listings_sql =
     ''\<newline>'' @
     ''        SELECT Food_ID, Food_Name, Quantity, Expiry_Date, Location, Food_Type, Meal_Type, Provider_ID\<newline>'' @
     ''        FROM Food_Listings\<newline>'' @
     ''        ORDER BY Food_ID DESC\<newline>'' @
     ''        LIMIT 10\<newline>'' @
     ''    ''"

definition listings_sql :: string where
  "listings_sql =
     ''\<newline>'' @
     ''        SELECT f.Food_ID, f.Food_Name, f.Quantity, f.Expiry_Date, f.Location, f.Food_Type, f.Meal_Type,\<newline>'' @
     ''               p.Name AS Provider_Name, p.Type AS Provider_Type, p.Contact AS Provider_Contact\<newline>'' @
     ''        FROM Food_Listings f\<newline>'' @
     ''        LEFT JOIN Providers p ON p.Provider_ID = f.Provider_ID\<newline>'' @
     ''    ''"

definition insert_claim_sql :: string where
  "insert_claim_sql =
     ''INSERT INTO Claims (Food_ID, Receiver_ID, Status, Timestamp) VALUES (?, ?, ?, ?)''"

definition insert_provider_sql :: string where
  "insert_provider_sql =
     ''INSERT INTO Providers (Name, Type, Address, City, Contact) VALUES (?, ?, ?, ?, ?)''"

text \<open>The two statements of the analysis tab that the theorems below are about.\<close>

definition claims_status_sql :: string where
  "claims_status_sql =
     ''SELECT Status, COUNT(*)*100.0/(SELECT COUNT(*) FROM Claims) AS Percentage FROM Claims GROUP BY Status''"

definition top_meal_types_sql :: string where
  "top_meal_types_sql =
     ''\<newline>'' @
     ''            SELECT Meal_Type, COUNT(*) AS Total_Claims\<newline>'' @
     ''            FROM Food_Listings f\<newline>'' @
     ''            JOIN Claims c ON f.Food_ID = c.Food_ID\<newline>'' @
     ''            GROUP BY Meal_Type\<newline>'' @
     ''            ORDER BY Total_Claims DESC\<newline>'' @
     ''        ''"

text \<open>The dictionary \<open>queries\<close> of the analysis tab (lines 170 to 183), in insertion order.\<close>

definition queries :: "(string \<times> string) list" where
  "queries =
     [(''Providers per City'',
       ''SELECT City, COUNT(*) AS Total_Providers FROM Providers GROUP BY City''),
      (''Receivers per City'',
       ''SELECT City, COUNT(*) AS Total_Receivers FROM Receivers GROUP BY City''),
      (''Top Provider Types'',
       ''SELECT Type, COUNT(*) AS Contribution_Count FROM Providers GROUP BY Type ORDER BY Contribution_Count DESC''),
      (''Top Food Types'',
       ''SELECT Food_Type, COUNT(*) AS Count FROM Food_Listings GROUP BY Food_Type ORDER BY Count DESC''),
      (''Claims Status %'', claims_status_sql),
      (''Top Meal Types Claimed'', top_meal_types_sql)]"

subsection \<open>What the engine answers\<close>

text \<open>The rows of the four tables as cells, for \<open>SELECT *\<close>.\<close>

definition provider_row :: "provider \<Rightarrow> cell list" where
  "provider_row p =
     [IntV (p_Provider_ID p), TextV (p_Name p), TextV (p_Type p), TextV (p_Address p),
      TextV (p_City p), TextV (p_Contact p)]"

definition receiver_row :: "receiver \<Rightarrow> cell list" where
  "receiver_row r = [IntV (Receiver_ID r), TextV (r_Name r), TextV (r_City r)]"

definition food_row :: "food_listing \<Rightarrow> cell list" where
  "food_row f =
     [IntV (Food_ID f), TextV (Food_Name f), IntV (Quantity f), TextV (Expiry_Date f),
      TextV (Location f), TextV (Food_Type f), TextV (Meal_Type f), IntV (Provider_ID f)]"

definition claim_row :: "claim \<Rightarrow> cell list" where
  "claim_row c =
     [IntV (Claim_ID c), IntV (c_Food_ID c), IntV (c_Receiver_ID c), TextV (Status c),
      TextV (Timestamp c)]"

text \<open>
  \<open>GROUP BY key\<close> with \<open>COUNT(*)\<close>: one group for each distinct key, with the number of
  rows that carry it. SQL leaves the order of the groups open; the model lists them as
  \<open>remdups\<close> does.
\<close>

definition group_count :: "string list \<Rightarrow> (string \<times> nat) list" where
  "group_count ks = map (\<lambda>k. (k, count_list ks k)) (remdups ks)"

definition count_row :: "string \<times> nat \<Rightarrow> cell list" where
  "count_row g = [TextV (fst g), IntV (int (snd g))]"

text \<open>\<open>ORDER BY count DESC\<close>.\<close>

definition order_desc :: "(string \<times> nat) list \<Rightarrow> (string \<times> nat) list" where
  "order_desc gs = sort_key (\<lambda>g. - int (snd g)) gs"

text \<open>The Browse Listings statement (lines 118 to 123): the labels of its select list.\<close>

definition listings_columns :: "string list" where
  "listings_columns =
     [''Food_ID'', ''Food_Name'', ''Quantity'', ''Expiry_Date'', ''Location'', ''Food_Type'',
      ''Meal_Type'', ''Provider_Name'', ''Provider_Type'', ''Provider_Contact'']"

text \<open>One row of the left join: a listing with a matching provider, or with none.\<close>

definition listing_row :: "food_listing \<Rightarrow> provider option \<Rightarrow> cell list" where
  "listing_row f po =
     [IntV (Food_ID f), TextV (Food_Name f), IntV (Quantity f), TextV (Expiry_Date f),
      TextV (Location f), TextV (Food_Type f), TextV (Meal_Type f)] @
     (case po of
        None \<Rightarrow> [Null, Null, Null]
      | Some p \<Rightarrow> [TextV (p_Name p), TextV (p_Type p), TextV (p_Contact p)])"

definition listings_rows :: "database \<Rightarrow> cell list list" where
  "listings_rows d =
     concat (map (\<lambda>f.
       case filter (\<lambda>p. p_Provider_ID p = Provider_ID f) (Providers d) of
         [] \<Rightarrow> [listing_row f None]
       | ps \<Rightarrow> map (\<lambda>p. listing_row f (Some p)) ps) (Food_Listings d))"

text \<open>The dashboard statement (lines 87 to 92).\<close>

definition recent_listings_rows :: "database \<Rightarrow> cell list list" where
  "recent_listings_rows d = map food_row (take 10 (rev (sort_key Food_ID (Food_Listings d))))"

text \<open>``Claims Status %'': one row for each status, with its share of all claims.\<close>

definition claims_status_rows :: "database \<Rightarrow> cell list list" where
  "claims_status_rows d =
     map (\<lambda>g. [TextV (fst g), percentage (snd g) (length (Claims d))])
       (group_count (map Status (Claims d)))"

text \<open>
  ``Top Meal Types Claimed'': the inner join of listings and claims on \<open>Food_ID\<close>, grouped
  by the listing's meal type.
\<close>

definition claimed_meal_types :: "database \<Rightarrow> string list" where
  "claimed_meal_types d =
     concat (map (\<lambda>f. map (\<lambda>c. Meal_Type f) (filter (\<lambda>c. Food_ID f = c_Food_ID c) (Claims d)))
       (Food_Listings d))"

definition top_meal_types_rows :: "database \<Rightarrow> cell list list" where
  "top_meal_types_rows d = map count_row (order_desc (group_count (claimed_meal_types d)))"

text \<open>
  Modelled from the spec: identifiers are unique and assigned by the storage engine. The
  primary key of a table is its row identifier, and an INSERT that gives none receives
  one more than the largest in use, or 1 in an empty table. \<open>next_rowid\<close> is \<open>None\<close>
  when the largest identifier in use is the largest 64 bit integer.
\<close>

definition next_rowid :: "int list \<Rightarrow> int option" where
  "next_rowid ids =
     (if ids = [] then Some 1
      else if Max (set ids) < 2 ^ 63 - 1 then Some (Max (set ids) + 1)
      else None)"

text \<open>
  Once the largest identifier is in use SQLite draws random numbers, makes each a positive
  candidate (the low 62 bits, plus one) and takes the first candidate that is not in use;
  after 100 candidates in use the statement fails with \<open>SQLITE_FULL\<close>. The result is the
  identifier and the generator after the draws. A failed statement leaves the whole state
  as it was, the generator included.
\<close>

definition candidate :: "(nat \<Rightarrow> int) \<Rightarrow> nat \<Rightarrow> int" where
  "candidate rnd n = rnd n mod 2 ^ 62 + 1"

definition assign_rowid :: "(nat \<Rightarrow> int) \<Rightarrow> int list \<Rightarrow> (int \<times> (nat \<Rightarrow> int)) option" where
  "assign_rowid rnd ids =
     (case next_rowid ids of
        Some i \<Rightarrow> Some (i, rnd)
      | None \<Rightarrow>
          (case find (\<lambda>n. candidate rnd n \<notin> set ids) [0..<100] of
             None \<Rightarrow> None
           | Some n \<Rightarrow> Some (candidate rnd n, \<lambda>m. rnd (m + Suc n))))"

text \<open>A SELECT without placeholders: any bound parameter is an error.\<close>

definition select :: "string list \<Rightarrow> (database \<Rightarrow> cell list list) \<Rightarrow> database engine" where
  "select cols rs d query params =
     (if params = [] then Inr (d, \<lparr>result = ResultSet cols (rs d), lastrowid = None\<rparr>)
      else Inl DatabaseError)"

text \<open>The INSERT of the claim tab (line 144): four placeholders.\<close>

definition insert_claim :: "database engine" where
  "insert_claim d query params =
     (if length params \<noteq> 4 then Inl DatabaseError
      else case params of
        [IntV food_id, IntV receiver_id, TextV st, TextV ts] \<Rightarrow>
          (case assign_rowid (rowid_random d) (map Claim_ID (Claims d)) of
             None \<Rightarrow> Inl DatabaseError
           | Some (i, rnd) \<Rightarrow>
               Inr (d\<lparr>Claims := Claims d @
                      [\<lparr>Claim_ID = i, c_Food_ID = food_id, c_Receiver_ID = receiver_id,
                        Status = st, Timestamp = ts\<rparr>],
                     rowid_random := rnd\<rparr>,
                    \<lparr>result = NoResultSet, lastrowid = Some i\<rparr>))
      | _ \<Rightarrow> Inl Unsupported)"

text \<open>The INSERT of the admin tab (line 160): five placeholders.\<close>

definition insert_provider :: "database engine" where
  "insert_provider d query params =
     (if length params \<noteq> 5 then Inl DatabaseError
      else case params of
        [TextV name, TextV type, TextV addr, TextV city, TextV contact] \<Rightarrow>
          (case assign_rowid (rowid_random d) (map p_Provider_ID (Providers d)) of
             None \<Rightarrow> Inl DatabaseError
           | Some (i, rnd) \<Rightarrow>
               Inr (d\<lparr>Providers := Providers d @
                      [\<lparr>p_Provider_ID = i, p_Name = name, p_Type = type, p_Address = addr,
                        p_City = city, p_Contact = contact\<rparr>],
                     rowid_random := rnd\<rparr>,
                    \<lparr>result = NoResultSet, lastrowid = Some i\<rparr>))
      | _ \<Rightarrow> Inl Unsupported)"

text \<open>Every statement the program issues, with what the engine does for it.\<close>

definition statements :: "(string \<times> database engine) list" where
  "statements =
     [(''SELECT * FROM Providers'',
       select [''Provider_ID'', ''Name'', ''Type'', ''Address'', ''City'', ''Contact'']
         (\<lambda>d. map provider_row (Providers d))),
      (''SELECT * FROM Receivers'',
       select [''Receiver_ID'', ''Name'', ''City''] (\<lambda>d. map receiver_row (Receivers d))),
      (''SELECT * FROM Food_Listings'',
       select [''Food_ID'', ''Food_Name'', ''Quantity'', ''Expiry_Date'', ''Location'',
               ''Food_Type'', ''Meal_Type'', ''Provider_ID'']
         (\<lambda>d. map food_row (Food_Listings d))),
      (''SELECT * FROM Claims'',
       select [''Claim_ID'', ''Food_ID'', ''Receiver_ID'', ''Status'', ''Timestamp'']
         (\<lambda>d. map claim_row (Claims d))),
      (recent_listings_sql,
       select [''Food_ID'', ''Food_Name'', ''Quantity'', ''Expiry_Date'', ''Location'',
               ''Food_Type'', ''Meal_Type'', ''Provider_ID''] recent_listings_rows),
      (listings_sql, select listings_columns listings_rows),
      (insert_claim_sql, insert_claim),
      (insert_provider_sql, insert_provider),
      (''SELECT City, COUNT(*) AS Total_Providers FROM Providers GROUP BY City'',
       select [''City'', ''Total_Providers'']
         (\<lambda>d. map count_row (group_count (map p_City (Providers d))))),
      (''SELECT City, COUNT(*) AS Total_Receivers FROM Receivers GROUP BY City'',
       select [''City'', ''Total_Receivers'']
         (\<lambda>d. map count_row (group_count (map r_City (Receivers d))))),
      (''SELECT Type, COUNT(*) AS Contribution_Count FROM Providers GROUP BY Type ORDER BY Contribution_Count DESC'',
       select [''Type'', ''Contribution_Count'']
         (\<lambda>d. map count_row (order_desc (group_count (map p_Type (Providers d)))))),
      (''SELECT Food_Type, COUNT(*) AS Count FROM Food_Listings GROUP BY Food_Type ORDER BY Count DESC'',
       select [''Food_Type'', ''Count'']
         (\<lambda>d. map count_row (order_desc (group_count (map Food_Type (Food_Listings d)))))),
      (claims_status_sql, select [''Status'', ''Percentage''] claims_status_rows),
      (top_meal_types_sql, select [''Meal_Type'', ''Total_Claims''] top_meal_types_rows)]"

text \<open>
  The storage engine on the statements of the program; every other text is outside the
  model.
\<close>

definition sqlite_execute :: "database engine" where
  "sqlite_execute d query params =
     (case map_of statements query of
        None \<Rightarrow> Inl Unsupported
      | Some stmt \<Rightarrow> stmt d query params)"

section \<open>The tabs\<close>

subsection \<open>Browse Listings and Analysis\<close>

text \<open>Lines 118 to 124: the joined statement, then the filter.\<close>

definition browse_listings :: "database conn \<Rightarrow> filters \<Rightarrow> database conn \<times> (error + dataframe)" where
  "browse_listings c f =
     (case run_query sqlite_execute c listings_sql [] True of
        (c', Inl e) \<Rightarrow> (c', Inl e)
      | (c', Inr None) \<Rightarrow> (c', Inl AttributeError)
      | (c', Inr (Some listings)) \<Rightarrow> (c', apply_filters f listings))"

text \<open>Lines 185 to 186: \<open>run_query(queries[selected_analysis])\<close>.\<close>

definition analysis ::
  "database conn \<Rightarrow> string \<Rightarrow> database conn \<times> (error + dataframe option)" where
  "analysis c selected_analysis =
     (case map_of queries selected_analysis of
        None \<Rightarrow> (c, Inl (KeyError selected_analysis))
      | Some q \<Rightarrow> run_query sqlite_execute c q [] True)"

subsection \<open>Formatting\<close>

definition digit_char :: "nat \<Rightarrow> char" where
  "digit_char d = ''0123456789'' ! (d mod 10)"

text \<open>The decimal digits of a natural number, as \<open>str\<close> prints them.\<close>

function digits :: "nat \<Rightarrow> string" where
  "digits n = (if n < 10 then [digit_char n] else digits (n div 10) @ [digit_char (n mod 10)])"
  by pat_completeness auto
termination
  by (relation "measure id") auto

declare digits.simps [simp del]

definition str_int :: "int \<Rightarrow> string" where
  "str_int i = (if i < 0 then ''-'' @ digits (nat (- i)) else digits (nat i))"

text \<open>A two digit field of \<open>strftime\<close> (\<open>%m\<close>, \<open>%d\<close>, \<open>%H\<close>, \<open>%M\<close>, \<open>%S\<close>), zero padded.\<close>

definition pad2 :: "nat \<Rightarrow> string" where
  "pad2 n = [digit_char (n div 10), digit_char n]"

text \<open>
  The reading of the wall clock, \<open>datetime.now()\<close>, to the second. A reading has a four
  digit year, for which \<open>%Y\<close> prints the digits of the year.
\<close>

record datetime =
  year :: nat
  month :: nat
  day :: nat
  hour :: nat
  minute :: nat
  second :: nat

definition valid_datetime :: "datetime \<Rightarrow> bool" where
  "valid_datetime t \<longleftrightarrow>
     1000 \<le> year t \<and> year t \<le> 9999 \<and> 1 \<le> month t \<and> month t \<le> 12 \<and> 1 \<le> day t \<and> day t \<le> 31 \<and>
     hour t < 24 \<and> minute t < 60 \<and> second t < 60"

text \<open>\<open>strftime("%Y-%m-%d %H:%M:%S")\<close>.\<close>

definition strftime :: "datetime \<Rightarrow> string" where
  "strftime t =
     digits (year t) @ ''-'' @ pad2 (month t) @ ''-'' @ pad2 (day t) @ '' '' @
     pad2 (hour t) @ '':'' @ pad2 (minute t) @ '':'' @ pad2 (second t)"

text \<open>
  A string has a format when it has the format's length, a decimal digit wherever the
  format has one of the letters \<open>Y\<close>, \<open>M\<close>, \<open>D\<close>, \<open>H\<close>, \<open>S\<close>, and the format's own character
  everywhere else.
\<close>

definition is_digit :: "char \<Rightarrow> bool" where
  "is_digit ch \<longleftrightarrow> ch \<in> set ''0123456789''"

fun has_format :: "string \<Rightarrow> string \<Rightarrow> bool" where
  "has_format [] [] = True"
| "has_format (p # ps) (ch # cs) =
     ((if p \<in> set ''YMDHS'' then is_digit ch else ch = p) \<and> has_format ps cs)"
| "has_format _ _ = False"

text \<open>
  What a timestamp of that format says: its six fields read as decimal numbers, the hour
  on the 24 hour clock.
\<close>

definition digit_value :: "char \<Rightarrow> nat" where
  "digit_value ch = of_char ch - of_char CHR ''0''"

definition number :: "string \<Rightarrow> nat" where
  "number s = foldl (\<lambda>n ch. 10 * n + digit_value ch) 0 s"

definition read_timestamp :: "string \<Rightarrow> datetime option" where
  "read_timestamp s =
     (if has_format ''YYYY-MM-DD HH:MM:SS'' s
      then Some \<lparr>year = number (take 4 s), month = number (take 2 (drop 5 s)),
                 day = number (take 2 (drop 8 s)), hour = number (take 2 (drop 11 s)),
                 minute = number (take 2 (drop 14 s)), second = number (take 2 (drop 17 s))\<rparr>
      else None)"

subsection \<open>Make a Claim\<close>

text \<open>The display labels of lines 133 and 136.\<close>

definition rx_label :: "receiver \<Rightarrow> string" where
  "rx_label row = r_Name row @ '' ('' @ r_City row @ '')''"

definition fx_label :: "food_listing \<Rightarrow> string" where
  "fx_label row =
     Food_Name row @ '' | '' @ Location row @ '' (Qty: '' @ str_int (Quantity row) @ '')''"

text \<open>
  The dictionaries \<open>rx_map\<close> and \<open>fx_map\<close>: a dictionary comprehension over the rows of the
  frame, in order. A Python dictionary keeps a key at the place of its first insertion and
  a later value replaces an earlier one, which is what \<open>AList.update\<close> does. The frames
  \<open>receivers_df\<close> and \<open>food_df\<close> are the full scans of lines 53 and 54; the model reads
  them as the rows of their tables.
\<close>

definition rx_map :: "receiver list \<Rightarrow> (string \<times> int) list" where
  "rx_map receivers_df =
     foldl (\<lambda>m row. AList.update (rx_label row) (Receiver_ID row) m) [] receivers_df"

definition fx_map :: "food_listing list \<Rightarrow> (string \<times> int) list" where
  "fx_map food_df =
     foldl (\<lambda>m row. AList.update (fx_label row) (Food_ID row) m) [] food_df"

definition status_opt :: "string list" where
  "status_opt = [''Pending'', ''Completed'', ''Cancelled'']"

text \<open>
  What the user did on the tab: the option chosen in each of the three select boxes (a
  select box returns one of its options) and whether the button was pressed.
\<close>

record claim_form =
  selected_rx :: string
  selected_food :: string
  claim_status :: string
  submit :: bool

text \<open>What a run of the tab did: its body was skipped, drawn without a write, or it wrote.\<close>

datatype claim_tab = Skipped | Drawn | Written "int option"

text \<open>A dictionary lookup \<open>m[k]\<close>.\<close>

definition lookup :: "(string \<times> int) list \<Rightarrow> string \<Rightarrow> error + int" where
  "lookup m k = (case map_of m k of None \<Rightarrow> Inl (KeyError k) | Some v \<Rightarrow> Inr v)"

text \<open>
  Lines 130 to 147. The arguments of \<open>run_write\<close> are evaluated from left to right, the
  clock last.
\<close>

definition make_claim ::
  "database conn \<Rightarrow> receiver list \<Rightarrow> food_listing list \<Rightarrow> claim_form \<Rightarrow> datetime \<Rightarrow>
   database conn \<times> (error + claim_tab)" where
  "make_claim c receivers_df food_df form now =
     (if receivers_df \<noteq> [] \<and> food_df \<noteq> [] then
        if submit form then
          (case lookup (fx_map food_df) (selected_food form) of
             Inl e \<Rightarrow> (c, Inl e)
           | Inr food_id \<Rightarrow>
               (case lookup (rx_map receivers_df) (selected_rx form) of
                  Inl e \<Rightarrow> (c, Inl e)
                | Inr receiver_id \<Rightarrow>
                    (case run_write sqlite_execute c insert_claim_sql
                            [IntV food_id, IntV receiver_id, TextV (claim_status form),
                             TextV (strftime now)] of
                       (c', Inl e) \<Rightarrow> (c', Inl e)
                     | (c', Inr i) \<Rightarrow> (c', Inr (Written i)))))
        else (c, Inr Drawn)
      else (c, Inr Skipped))"

text \<open>
  One run of the script as far as the claim tab: the two frames are loaded from the
  database at the start of the run.
\<close>

definition claim_flow ::
  "database conn \<Rightarrow> claim_form \<Rightarrow> datetime \<Rightarrow> database conn \<times> (error + claim_tab)" where
  "claim_flow c form now = make_claim c (Receivers (db c)) (Food_Listings (db c)) form now"

section \<open>An example state\<close>

text \<open>
  A small database on which the theorems below are exercised: the first two receivers
  share a display label, and so do the first and the last listing; the third listing names
  a provider that does not exist, the second has no quantity left, and the claims have the
  statuses Pending, Pending, Completed.
\<close>

definition db0 :: database where
  "db0 =
     \<lparr>Providers =
        [\<lparr>p_Provider_ID = 1, p_Name = ''Asha Kitchen'', p_Type = ''Restaurant'',
          p_Address = ''12 MG Road'', p_City = ''Pune'', p_Contact = ''111''\<rparr>,
         \<lparr>p_Provider_ID = 2, p_Name = ''Helping Hands'', p_Type = ''NGO'',
          p_Address = ''4 Park Street'', p_City = ''Delhi'', p_Contact = ''222''\<rparr>],
      Receivers =
        [\<lparr>Receiver_ID = 1, r_Name = ''Ravi'', r_City = ''Pune''\<rparr>,
         \<lparr>Receiver_ID = 2, r_Name = ''Ravi'', r_City = ''Pune''\<rparr>,
         \<lparr>Receiver_ID = 3, r_Name = ''Meera'', r_City = ''Delhi''\<rparr>],
      Food_Listings =
        [\<lparr>Food_ID = 1, Food_Name = ''Rice'', Quantity = 5, Expiry_Date = ''2025-03-01'',
          Location = ''Pune'', Food_Type = ''Vegetarian'', Meal_Type = ''Lunch'',
          Provider_ID = 1\<rparr>,
         \<lparr>Food_ID = 2, Food_Name = ''Bread'', Quantity = 0, Expiry_Date = ''2025-03-02'',
          Location = ''Delhi'', Food_Type = ''Vegan'', Meal_Type = ''Breakfast'',
          Provider_ID = 2\<rparr>,
         \<lparr>Food_ID = 3, Food_Name = ''Soup'', Quantity = 3, Expiry_Date = ''2025-03-03'',
          Location = ''Pune'', Food_Type = ''Vegan'', Meal_Type = ''Dinner'',
          Provider_ID = 9\<rparr>,
         \<lparr>Food_ID = 4, Food_Name = ''Rice'', Quantity = 5, Expiry_Date = ''2025-03-04'',
          Location = ''Pune'', Food_Type = ''Vegetarian'', Meal_Type = ''Lunch'',
          Provider_ID = 1\<rparr>],
      Claims =
        [\<lparr>Claim_ID = 1, c_Food_ID = 1, c_Receiver_ID = 1, Status = ''Pending'',
          Timestamp = ''2025-02-27 09:15:00''\<rparr>,
         \<lparr>Claim_ID = 2, c_Food_ID = 1, c_Receiver_ID = 3, Status = ''Pending'',
          Timestamp = ''2025-02-27 10:00:30''\<rparr>,
         \<lparr>Claim_ID = 3, c_Food_ID = 2, c_Receiver_ID = 2, Status = ''Completed'',
          Timestamp = ''2025-02-28 18:45:59''\<rparr>],
      rowid_random = (\<lambda>n. 3 * int n)\<rparr>"

text \<open>The same state without claims, and the connection before any statement.\<close>

definition db1 :: database where
  "db1 = db0\<lparr>Claims := []\<rparr>"

text \<open>
  The same state with the largest identifier in use in Claims; the generator yields the
  candidates 1, which is in use, and then 4.
\<close>

definition db2 :: database where
  "db2 = db0\<lparr>Claims :=
       [\<lparr>Claim_ID = 1, c_Food_ID = 1, c_Receiver_ID = 1, Status = ''Pending'',
         Timestamp = ''2025-02-27 09:15:00''\<rparr>,
        \<lparr>Claim_ID = 2 ^ 63 - 1, c_Food_ID = 2, c_Receiver_ID = 2, Status = ''Completed'',
         Timestamp = ''2025-02-28 18:45:59''\<rparr>]\<rparr>"

definition conn0 :: "database \<Rightarrow> database conn" where
  "conn0 d = \<lparr>db = d, executed = []\<rparr>"

section \<open>Properties of the filter\<close>

lemma bind_Inr [simp]: "bind (Inr x) f = f x"
  by (simp add: bind_def)

lemma bind_Inl [simp]: "bind (Inl e) f = Inl e"
  by (simp add: bind_def)

lemma zip_mask_filter: "map fst (filter snd (zip xs (map P xs))) = filter P xs"
  by (induction xs) auto

lemma index_of_None: "index_of c cs = None \<longleftrightarrow> c \<notin> set cs"
  by (induction cs) auto

lemma index_of_Some: "c \<in> set cs \<Longrightarrow> \<exists>i. index_of c cs = Some i \<and> i < length cs \<and> cs ! i = c"
  by (induction cs) auto

lemma filter_step_filter:
  assumes "sel = ''All'' \<or> col \<in> set (columns df)"
  shows "filter_step sel col df = Inr (df\<lparr>rows := filter (keeps df sel col) (rows df)\<rparr>)"
proof (cases "sel = ''All''")
  case True
  then show ?thesis by (simp add: filter_step_def keeps_def)
next
  case False
  with assms obtain i where i: "index_of col (columns df) = Some i"
    using index_of_Some by blast
  have "map fst (filter snd (zip (rows df) (map (\<lambda>r. r ! i = TextV sel) (rows df))))
        = filter (\<lambda>r. r ! i = TextV sel) (rows df)"
    by (rule zip_mask_filter)
  moreover from False i have "keeps df sel col = (\<lambda>r. r ! i = TextV sel)"
    by (simp add: keeps_def cell_at_def fun_eq_iff)
  ultimately show ?thesis using False i
    by (simp add: filter_step_def getitem_def series_eq_def mask_rows_def comp_def)
qed

lemma filter_step_KeyError:
  assumes "sel \<noteq> ''All''" and "col \<notin> set (columns df)"
  shows "filter_step sel col df = Inl (KeyError col)"
proof -
  from assms(2) have "index_of col (columns df) = None" by (simp add: index_of_None)
  with assms(1) show ?thesis by (simp add: filter_step_def getitem_def)
qed

lemma keeps_rows_update [simp]: "keeps (df\<lparr>rows := rs\<rparr>) sel col = keeps df sel col"
  by (simp add: keeps_def cell_at_def fun_eq_iff)

lemma satisfies_keeps:
  "satisfies df f r \<longleftrightarrow>
     keeps df (f_city f) ''Location'' r \<and> keeps df (f_provider_type f) ''Provider_Type'' r \<and>
     keeps df (f_food_type f) ''Food_Type'' r \<and> keeps df (f_meal_type f) ''Meal_Type'' r"
  by (auto simp: satisfies_def active_def keeps_def)

lemma apply_filters_nonempty:
  assumes "\<not> df_empty df"
    and "f_city f = ''All'' \<or> ''Location'' \<in> set (columns df)"
    and "f_provider_type f = ''All'' \<or> ''Provider_Type'' \<in> set (columns df)"
    and "f_food_type f = ''All'' \<or> ''Food_Type'' \<in> set (columns df)"
    and "f_meal_type f = ''All'' \<or> ''Meal_Type'' \<in> set (columns df)"
  shows "apply_filters f df = Inr (df\<lparr>rows := filter (satisfies df f) (rows df)\<rparr>)"
proof -
  have "filter (satisfies df f) (rows df) =
        filter (keeps df (f_meal_type f) ''Meal_Type'')
          (filter (keeps df (f_food_type f) ''Food_Type'')
            (filter (keeps df (f_provider_type f) ''Provider_Type'')
              (filter (keeps df (f_city f) ''Location'') (rows df))))"
    by (auto simp: satisfies_keeps fun_eq_iff intro: filter_cong)
  with assms show ?thesis
    by (simp add: apply_filters_def filter_step_filter)
qed

lemma active_columns:
  "(\<forall>(col, v) \<in> set (active f). col \<in> set cs) \<longleftrightarrow>
     (f_city f = ''All'' \<or> ''Location'' \<in> set cs) \<and>
     (f_provider_type f = ''All'' \<or> ''Provider_Type'' \<in> set cs) \<and>
     (f_food_type f = ''All'' \<or> ''Food_Type'' \<in> set cs) \<and>
     (f_meal_type f = ''All'' \<or> ''Meal_Type'' \<in> set cs)"
  by (auto simp: active_def)

lemma apply_filters_rows:
  assumes "\<forall>(col, v) \<in> set (active f). col \<in> set (columns df)"
  shows "apply_filters f df = Inr (df\<lparr>rows := filter (satisfies df f) (rows df)\<rparr>)"
proof (cases "df_empty df")
  case False
  with assms show ?thesis
    by (simp add: apply_filters_nonempty active_columns)
next
  case True
  have "filter (satisfies df f) (rows df) = rows df"
  proof (cases "rows df = []")
    case True
    then show ?thesis by simp
  next
    case False
    with \<open>df_empty df\<close> have "columns df = []" by (simp add: df_empty_def)
    with assms have "active f = []" by (cases "active f") auto
    then show ?thesis by (simp add: satisfies_def)
  qed
  with True show ?thesis by (simp add: apply_filters_def)
qed

text \<open>
  C1. For a well-formed frame and a selection all of whose active predicates name a column
  of the frame, \<open>apply_filters\<close> raises nothing and returns the frame with the same columns
  and exactly the rows that satisfy every active predicate, in their order: each output
  row is an input row that satisfies all of them, and each input row that satisfies all of
  them is in the output. A predicate holds of a row when the cell under its column is the
  TEXT equal to the selected string.
\<close>

theorem apply_filters_exact:
  assumes "wf_df df" and "\<forall>(col, v) \<in> set (active f). col \<in> set (columns df)"
  shows "\<exists>out. apply_filters f df = Inr out \<and> columns out = columns df \<and>
           rows out = filter (satisfies df f) (rows df) \<and>
           (\<forall>r \<in> set (rows out). r \<in> set (rows df) \<and> satisfies df f r) \<and>
           (\<forall>r \<in> set (rows df). satisfies df f r \<longrightarrow> r \<in> set (rows out))"
  using apply_filters_rows [OF assms(2)] by auto

theorem apply_filters_exact_witness:
  "wf_df \<lparr>columns = [''Location'', ''Meal_Type''],
          rows = [[TextV ''Pune'', TextV ''Lunch''], [TextV ''pune'', TextV ''Lunch''],
                  [TextV ''Pune'', TextV ''Dinner''], [Null, TextV ''Lunch'']]\<rparr> \<and>
   map fst (active \<lparr>f_city = ''Pune'', f_provider_type = ''All'', f_food_type = ''All'',
                     f_meal_type = ''Lunch''\<rparr>) = [''Location'', ''Meal_Type''] \<and>
   apply_filters \<lparr>f_city = ''Pune'', f_provider_type = ''All'', f_food_type = ''All'',
                  f_meal_type = ''Lunch''\<rparr>
     \<lparr>columns = [''Location'', ''Meal_Type''],
      rows = [[TextV ''Pune'', TextV ''Lunch''], [TextV ''pune'', TextV ''Lunch''],
              [TextV ''Pune'', TextV ''Dinner''], [Null, TextV ''Lunch'']]\<rparr>
   = Inr \<lparr>columns = [''Location'', ''Meal_Type''], rows = [[TextV ''Pune'', TextV ''Lunch'']]\<rparr>"
proof -
  let ?D = "\<lparr>columns = [''Location'', ''Meal_Type''],
          rows = [[TextV ''Pune'', TextV ''Lunch''], [TextV ''pune'', TextV ''Lunch''],
                  [TextV ''Pune'', TextV ''Dinner''], [Null, TextV ''Lunch'']]\<rparr>"
  let ?F = "\<lparr>f_city = ''Pune'', f_provider_type = ''All'', f_food_type = ''All'',
                  f_meal_type = ''Lunch''\<rparr>"
  have wf: "wf_df ?D" by (simp add: wf_df_def)
  have act: "active ?F = [(''Location'', ''Pune''), (''Meal_Type'', ''Lunch'')]"
    by (simp add: active_def)
  have cols: "\<forall>(col, v) \<in> set (active ?F). col \<in> set (columns ?D)"
    by (simp add: act)
  have sel: "filter (satisfies ?D ?F) (rows ?D) = [[TextV ''Pune'', TextV ''Lunch'']]"
    by (simp add: satisfies_def act cell_at_def)
  from apply_filters_exact [OF wf cols] obtain out where
    "apply_filters ?F ?D = Inr out" "columns out = columns ?D"
    "rows out = filter (satisfies ?D ?F) (rows ?D)"
    by blast
  with sel have "apply_filters ?F ?D =
      Inr \<lparr>columns = [''Location'', ''Meal_Type''], rows = [[TextV ''Pune'', TextV ''Lunch'']]\<rparr>"
    by simp
  with wf act show ?thesis by simp
qed

text \<open>
  C4. With every selection at \<open>''All''\<close> the filter is the identity: it returns the input
  frame itself, whatever the frame.
\<close>

theorem apply_filters_all:
  "apply_filters \<lparr>f_city = ''All'', f_provider_type = ''All'', f_food_type = ''All'',
                  f_meal_type = ''All''\<rparr> df = Inr df"
  by (simp add: apply_filters_def filter_step_def)

text \<open>
  C5. On a frame without rows the filter returns that frame, so an empty result, for every
  selection: the test \<open>df.empty\<close> comes before any column is looked up, so a selection
  that names a column absent from the frame raises nothing.
\<close>

theorem apply_filters_empty:
  "rows df = [] \<Longrightarrow> apply_filters f df = Inr df \<and> df_empty df"
  by (simp add: apply_filters_def df_empty_def)

theorem apply_filters_empty_witness:
  "rows \<lparr>columns = [''Food_ID''], rows = []\<rparr> = [] \<and>
   ''Location'' \<notin> set (columns \<lparr>columns = [''Food_ID''], rows = []\<rparr>) \<and>
   apply_filters \<lparr>f_city = ''Pune'', f_provider_type = ''NGO'', f_food_type = ''Vegan'',
                  f_meal_type = ''Lunch''\<rparr> \<lparr>columns = [''Food_ID''], rows = []\<rparr>
   = Inr \<lparr>columns = [''Food_ID''], rows = []\<rparr>"
  using apply_filters_empty
    [of "\<lparr>columns = [''Food_ID''], rows = []\<rparr>"
        "\<lparr>f_city = ''Pune'', f_provider_type = ''NGO'', f_food_type = ''Vegan'',
          f_meal_type = ''Lunch''\<rparr>"]
  by simp

section \<open>Properties of the query executor\<close>

lemma execute_executed [simp]:
  "executed (fst (execute eng c query params)) = executed c @ [(query, params)]"
  by (simp add: execute_def split: sum.splits prod.splits)

lemma run_query_executed [simp]:
  "executed (fst (run_query eng c query params as_df)) = executed c @ [(query, params)]"
proof -
  have "fst (run_query eng c query params as_df) = fst (execute eng c query params)"
    by (simp add: run_query_def Let_def split: sum.splits prod.splits)
  then show ?thesis by simp
qed

lemma run_write_executed [simp]:
  "executed (fst (run_write eng c query params)) = executed c @ [(query, params)]"
proof -
  have "fst (run_write eng c query params) = fst (execute eng c query params)"
    by (simp add: run_write_def split: sum.splits prod.splits)
  then show ?thesis by simp
qed

lemma run_query_select:
  assumes "eng (db c) query params = Inr (d, cur)"
  shows "run_query eng c query params True =
           (\<lparr>db = d, executed = executed c @ [(query, params)]\<rparr>,
            bind (DataFrame (fetchall cur) (case description cur of Some cols \<Rightarrow> cols | None \<Rightarrow> []))
              (\<lambda>df. Inr (Some df)))"
  using assms by (simp add: run_query_def execute_def)

lemma load_table_executed [simp]:
  "executed (fst (load_table eng c table_name)) = executed c @ [(''SELECT * FROM '' @ table_name, [])]"
  by (simp add: load_table_def)

lemma make_claim_executed:
  "executed (fst (make_claim c receivers_df food_df form now)) = executed c \<or>
   (\<exists>food_id receiver_id.
      executed (fst (make_claim c receivers_df food_df form now)) =
        executed c @ [(insert_claim_sql,
          [IntV food_id, IntV receiver_id, TextV (claim_status form), TextV (strftime now)])])"
proof -
  have *: "executed (fst (case run_write sqlite_execute c insert_claim_sql ps of
              (c', Inl e) \<Rightarrow> (c', Inl e) | (c', Inr i) \<Rightarrow> (c', Inr (Written i)))) =
           executed c @ [(insert_claim_sql, ps)]" for ps
  proof -
    obtain c' r where eq: "run_write sqlite_execute c insert_claim_sql ps = (c', r)"
      by (cases "run_write sqlite_execute c insert_claim_sql ps")
    with run_write_executed [of sqlite_execute c insert_claim_sql ps]
    have "executed c' = executed c @ [(insert_claim_sql, ps)]" by simp
    with eq show ?thesis by (cases r) simp_all
  qed
  show ?thesis
    by (auto simp: make_claim_def * split: sum.splits)
qed

lemma map_of_top_meal_types:
  "map_of statements top_meal_types_sql = Some (select [''Meal_Type'', ''Total_Claims''] top_meal_types_rows)"
  by (simp add: statements_def listings_sql_def recent_listings_sql_def insert_claim_sql_def
      insert_provider_sql_def claims_status_sql_def top_meal_types_sql_def)

lemma map_of_claims_status:
  "map_of statements claims_status_sql = Some (select [''Status'', ''Percentage''] claims_status_rows)"
  by (simp add: statements_def listings_sql_def recent_listings_sql_def insert_claim_sql_def
      insert_provider_sql_def claims_status_sql_def)

lemma map_of_insert_claim: "map_of statements insert_claim_sql = Some insert_claim"
  by (simp add: statements_def listings_sql_def recent_listings_sql_def insert_claim_sql_def)

lemma map_of_queries_status: "map_of queries ''Claims Status %'' = Some claims_status_sql"
  by (simp add: queries_def)

lemma map_of_queries_meal: "map_of queries ''Top Meal Types Claimed'' = Some top_meal_types_sql"
  by (simp add: queries_def)

lemma map_of_listings: "map_of statements listings_sql = Some (select listings_columns listings_rows)"
  by (simp add: statements_def listings_sql_def recent_listings_sql_def)

lemma description_None_fetchall: "description cur = None \<Longrightarrow> fetchall cur = []"
  by (simp add: description_def fetchall_def split: result_set.splits)

lemma run_query_no_rows:
  assumes "eng (db c) query params = Inr (d, cur)" and "fetchall cur = [] \<or> description cur = None"
  shows "run_query eng c query params True =
           (\<lparr>db = d, executed = executed c @ [(query, params)]\<rparr>,
            Inr (Some \<lparr>columns = (case description cur of Some cols \<Rightarrow> cols | None \<Rightarrow> []),
                       rows = []\<rparr>))"
proof -
  from assms(2) have "fetchall cur = []"
    using description_None_fetchall by blast
  with assms(1) run_query_select [of eng c query params d cur] show ?thesis
    by (simp add: DataFrame_def)
qed

text \<open>
  C3 (amended). Whatever parameters are bound, \<open>run_query\<close> and \<open>run_write\<close> hand the
  engine exactly one statement, whose text is the \<open>query\<close> argument unchanged and whose
  parameters are the \<open>params\<close> argument: two runs that differ only in the parameters
  execute the same text. The claim tab executes nothing or the one fixed INSERT text,
  whatever was selected. \<open>load_table\<close> is different: the text it executes is
  \<open>SELECT * FROM\<close> followed by its \<open>table_name\<close> argument.
\<close>

theorem sql_text_fixed_by_statement:
  "executed (fst (run_query eng c query params as_df)) = executed c @ [(query, params)] \<and>
   executed (fst (run_write eng c query params)) = executed c @ [(query, params)] \<and>
   map fst (executed (fst (run_query eng c query params as_df))) =
     map fst (executed (fst (run_query eng c query params' as_df))) \<and>
   map fst (executed (fst (run_write eng c query params))) =
     map fst (executed (fst (run_write eng c query params'))) \<and>
   map fst (executed (fst (load_table eng c table_name))) =
     map fst (executed c) @ [''SELECT * FROM '' @ table_name] \<and>
   map fst (executed (fst (make_claim c0 receivers_df food_df form now)))
     \<in> {map fst (executed c0), map fst (executed c0) @ [insert_claim_sql]}"
  using make_claim_executed [of c0 receivers_df food_df form now]
  by auto

text \<open>
  C3 as stated fails for \<open>load_table\<close>: two runs that differ only in the table name
  execute different statement texts.
\<close>

theorem load_table_text_counterexample:
  "map fst (executed (fst (load_table sqlite_execute (conn0 db0) ''Providers''))) =
     [''SELECT * FROM Providers''] \<and>
   map fst (executed (fst (load_table sqlite_execute (conn0 db0) ''Claims''))) =
     [''SELECT * FROM Claims''] \<and>
   ''SELECT * FROM Providers'' \<noteq> ''SELECT * FROM Claims''"
  by (simp add: conn0_def)

section \<open>Properties of Browse Listings\<close>

lemma listing_row_length [simp]: "length (listing_row f po) = 10"
  by (simp add: listing_row_def split: option.splits)

lemma listings_rows_width: "list_all (\<lambda>r. length r = 10) (listings_rows d)"
  by (auto simp: listings_rows_def list_all_iff split: list.splits)

lemma listings_columns_length [simp]: "length listings_columns = 10"
  by (simp add: listings_columns_def)

lemma sqlite_execute_listings:
  "sqlite_execute d listings_sql [] =
     Inr (d, \<lparr>result = ResultSet listings_columns (listings_rows d), lastrowid = None\<rparr>)"
  by (simp add: sqlite_execute_def map_of_listings select_def)

lemma run_query_listings:
  "run_query sqlite_execute c listings_sql [] True =
     (c\<lparr>executed := executed c @ [(listings_sql, [])]\<rparr>,
      Inr (Some \<lparr>columns = listings_columns, rows = listings_rows (db c)\<rparr>))"
proof -
  have "sqlite_execute (db c) listings_sql [] =
     Inr (db c, \<lparr>result = ResultSet listings_columns (listings_rows (db c)), lastrowid = None\<rparr>)"
    by (rule sqlite_execute_listings)
  then show ?thesis
    using run_query_select [of sqlite_execute c listings_sql "[]"]
    by (simp add: description_def fetchall_def DataFrame_def listings_rows_width)
qed

lemma browse_listings_rows:
  "browse_listings c f =
     (c\<lparr>executed := executed c @ [(listings_sql, [])]\<rparr>,
      Inr \<lparr>columns = listings_columns,
           rows = filter (satisfies \<lparr>columns = listings_columns, rows = listings_rows (db c)\<rparr> f)
                    (listings_rows (db c))\<rparr>)"
proof -
  let ?df = "\<lparr>columns = listings_columns, rows = listings_rows (db c)\<rparr>"
  have "\<forall>(col, v) \<in> set (active f). col \<in> set (columns ?df)"
    unfolding active_columns by (simp add: listings_columns_def)
  then have "apply_filters f ?df = Inr (?df\<lparr>rows := filter (satisfies ?df f) (rows ?df)\<rparr>)"
    by (rule apply_filters_rows)
  then show ?thesis
    by (simp add: browse_listings_def run_query_listings)
qed

lemma satisfies_provider_type:
  assumes "satisfies df f r" and "f_provider_type f \<noteq> ''All''"
  shows "cell_at df r ''Provider_Type'' = Some (TextV (f_provider_type f))"
  using assms by (simp add: satisfies_keeps keeps_def)

lemma listings_rows_db0:
  "listings_rows db0 =
     [[IntV 1, TextV ''Rice'', IntV 5, TextV ''2025-03-01'', TextV ''Pune'', TextV ''Vegetarian'',
       TextV ''Lunch'', TextV ''Asha Kitchen'', TextV ''Restaurant'', TextV ''111''],
      [IntV 2, TextV ''Bread'', IntV 0, TextV ''2025-03-02'', TextV ''Delhi'', TextV ''Vegan'',
       TextV ''Breakfast'', TextV ''Helping Hands'', TextV ''NGO'', TextV ''222''],
      [IntV 3, TextV ''Soup'', IntV 3, TextV ''2025-03-03'', TextV ''Pune'', TextV ''Vegan'',
       TextV ''Dinner'', Null, Null, Null],
      [IntV 4, TextV ''Rice'', IntV 5, TextV ''2025-03-04'', TextV ''Pune'', TextV ''Vegetarian'',
       TextV ''Lunch'', TextV ''Asha Kitchen'', TextV ''Restaurant'', TextV ''111'']]"
  by (simp add: listings_rows_def db0_def listing_row_def)

lemma ngo_rows:
  "filter (satisfies \<lparr>columns = listings_columns, rows = rs\<rparr>
            \<lparr>f_city = ''All'', f_provider_type = ''NGO'', f_food_type = ''All'',
              f_meal_type = ''All''\<rparr>) (listings_rows db0) =
     [[IntV 2, TextV ''Bread'', IntV 0, TextV ''2025-03-02'', TextV ''Delhi'', TextV ''Vegan'',
       TextV ''Breakfast'', TextV ''Helping Hands'', TextV ''NGO'', TextV ''222'']]"
  by (simp add: listings_rows_db0 satisfies_def active_def cell_at_def listings_columns_def)

text \<open>
  C2 (amended). In every database state the result of the Browse Listings statement has
  the column \<open>Provider_Type\<close> (the select list names it, \<open>p.Type AS Provider_Type\<close>).
  The filter therefore raises no lookup error on it for any selection, and a provider
  type other than \<open>''All''\<close> takes effect: every row that is kept holds that provider type.
\<close>

theorem browse_listings_provider_type:
  "snd (run_query sqlite_execute c listings_sql [] True) =
     Inr (Some \<lparr>columns = listings_columns, rows = listings_rows (db c)\<rparr>) \<and>
   ''Provider_Type'' \<in> set listings_columns \<and>
   (\<exists>out. snd (browse_listings c f) = Inr out \<and> columns out = listings_columns \<and>
      rows out = filter (satisfies \<lparr>columns = listings_columns, rows = listings_rows (db c)\<rparr> f)
                   (listings_rows (db c)) \<and>
      (f_provider_type f \<noteq> ''All'' \<longrightarrow>
         (\<forall>r \<in> set (rows out).
            cell_at out r ''Provider_Type'' = Some (TextV (f_provider_type f)))))"
proof -
  let ?df = "\<lparr>columns = listings_columns, rows = listings_rows (db c)\<rparr>"
  let ?out = "\<lparr>columns = listings_columns, rows = filter (satisfies ?df f) (listings_rows (db c))\<rparr>"
  have 1: "snd (run_query sqlite_execute c listings_sql [] True) = Inr (Some ?df)"
    by (simp add: run_query_listings)
  have 2: "''Provider_Type'' \<in> set listings_columns"
    by (simp add: listings_columns_def)
  have 3: "snd (browse_listings c f) = Inr ?out"
    by (simp add: browse_listings_rows)
  have 4: "cell_at ?out r ''Provider_Type'' = Some (TextV (f_provider_type f))"
    if "f_provider_type f \<noteq> ''All''" and "r \<in> set (rows ?out)" for r
  proof -
    from that(2) have "satisfies ?df f r" by simp
    from satisfies_provider_type [OF this that(1)] show ?thesis
      by (simp add: cell_at_def)
  qed
  have "\<exists>out. snd (browse_listings c f) = Inr out \<and> columns out = listings_columns \<and>
      rows out = filter (satisfies ?df f) (listings_rows (db c)) \<and>
      (f_provider_type f \<noteq> ''All'' \<longrightarrow>
         (\<forall>r \<in> set (rows out).
            cell_at out r ''Provider_Type'' = Some (TextV (f_provider_type f))))"
    using 3 4 by (intro exI [of _ ?out]) simp
  with 1 2 show ?thesis by simp
qed

theorem browse_listings_provider_type_witness:
  "f_provider_type \<lparr>f_city = ''All'', f_provider_type = ''NGO'', f_food_type = ''All'',
                     f_meal_type = ''All''\<rparr> \<noteq> ''All'' \<and>
   (\<exists>out. snd (browse_listings (conn0 db0)
               \<lparr>f_city = ''All'', f_provider_type = ''NGO'', f_food_type = ''All'',
                 f_meal_type = ''All''\<rparr>) = Inr out \<and>
          length (rows out) = 1 \<and>
          list_all (\<lambda>r. cell_at out r ''Provider_Type'' = Some (TextV ''NGO'')) (rows out))"
proof -
  let ?F = "\<lparr>f_city = ''All'', f_provider_type = ''NGO'', f_food_type = ''All'',
             f_meal_type = ''All''\<rparr>"
  from browse_listings_provider_type [of "conn0 db0" ?F] obtain out where
    out: "snd (browse_listings (conn0 db0) ?F) = Inr out"
      "rows out = filter (satisfies \<lparr>columns = listings_columns, rows = listings_rows (db (conn0 db0))\<rparr> ?F)
                   (listings_rows (db (conn0 db0)))"
      "\<forall>r \<in> set (rows out). cell_at out r ''Provider_Type'' = Some (TextV ''NGO'')"
    by auto
  from out(2) have "length (rows out) = 1"
    by (simp add: conn0_def ngo_rows)
  with out(1,3) show ?thesis
    by (auto simp: list_all_iff)
qed

text \<open>
  C2 as stated fails: on the example state the result has the column \<open>Provider_Type\<close>,
  and selecting the provider type NGO raises nothing and keeps one of the four rows.
\<close>

theorem browse_listings_provider_type_counterexample:
  "snd (run_query sqlite_execute (conn0 db0) listings_sql [] True) =
     Inr (Some \<lparr>columns = listings_columns, rows = listings_rows db0\<rparr>) \<and>
   ''Provider_Type'' \<in> set listings_columns \<and>
   length (listings_rows db0) = 4 \<and>
   snd (browse_listings (conn0 db0)
          \<lparr>f_city = ''All'', f_provider_type = ''NGO'', f_food_type = ''All'',
            f_meal_type = ''All''\<rparr>) =
     Inr \<lparr>columns = listings_columns,
          rows = [[IntV 2, TextV ''Bread'', IntV 0, TextV ''2025-03-02'', TextV ''Delhi'',
                   TextV ''Vegan'', TextV ''Breakfast'', TextV ''Helping Hands'', TextV ''NGO'',
                   TextV ''222'']]\<rparr>"
  by (simp add: run_query_listings browse_listings_rows conn0_def ngo_rows)
    (simp add: listings_rows_db0 listings_columns_def)

section \<open>Properties of the analysis tab\<close>

lemma top_meal_types_no_claims:
  "Claims d = [] \<Longrightarrow> top_meal_types_rows d = []"
proof -
  assume "Claims d = []"
  then have "claimed_meal_types d = []"
    by (simp add: claimed_meal_types_def)
  then show ?thesis
    by (simp add: top_meal_types_rows_def group_count_def order_desc_def)
qed

lemma sqlite_execute_top_meal_types:
  "sqlite_execute d top_meal_types_sql [] =
     Inr (d, \<lparr>result = ResultSet [''Meal_Type'', ''Total_Claims''] (top_meal_types_rows d),
              lastrowid = None\<rparr>)"
  by (simp add: sqlite_execute_def map_of_top_meal_types select_def)

lemma analysis_top_meal_types_no_claims:
  assumes "Claims (db c) = []"
  shows "analysis c ''Top Meal Types Claimed'' =
           (c\<lparr>executed := executed c @ [(top_meal_types_sql, [])]\<rparr>,
            Inr (Some \<lparr>columns = [''Meal_Type'', ''Total_Claims''], rows = []\<rparr>))"
proof -
  have "sqlite_execute (db c) top_meal_types_sql [] =
     Inr (db c, \<lparr>result = ResultSet [''Meal_Type'', ''Total_Claims''] [], lastrowid = None\<rparr>)"
    using assms by (simp add: sqlite_execute_top_meal_types top_meal_types_no_claims)
  then have "run_query sqlite_execute c top_meal_types_sql [] True =
           (c\<lparr>executed := executed c @ [(top_meal_types_sql, [])]\<rparr>,
            Inr (Some \<lparr>columns = [''Meal_Type'', ''Total_Claims''], rows = []\<rparr>))"
    using run_query_no_rows [of sqlite_execute c top_meal_types_sql "[]"]
    by (simp add: fetchall_def description_def)
  then show ?thesis
    by (simp add: analysis_def map_of_queries_meal)
qed

text \<open>
  C7. Whenever the engine answers a statement with a cursor that has no rows to fetch, or
  no result set at all, \<open>run_query\<close> returns a frame without rows (with the labels of the
  description, if there is one) and raises nothing. In particular ``Top Meal Types
  Claimed'' on a database without claims returns the frame with its two column labels and
  no rows.
\<close>

theorem run_query_empty_table:
  "(eng (db c) query params = Inr (d, cur) \<and> (fetchall cur = [] \<or> description cur = None) \<longrightarrow>
      snd (run_query eng c query params True) =
        Inr (Some \<lparr>columns = (case description cur of Some cols \<Rightarrow> cols | None \<Rightarrow> []),
                   rows = []\<rparr>)) \<and>
   (Claims (db c0) = [] \<longrightarrow>
      snd (analysis c0 ''Top Meal Types Claimed'') =
        Inr (Some \<lparr>columns = [''Meal_Type'', ''Total_Claims''], rows = []\<rparr>))"
  by (simp add: run_query_no_rows analysis_top_meal_types_no_claims)

theorem run_query_empty_table_witness:
  "sqlite_execute (db (conn0 db1)) top_meal_types_sql [] =
     Inr (db1, \<lparr>result = ResultSet [''Meal_Type'', ''Total_Claims''] [], lastrowid = None\<rparr>) \<and>
   fetchall \<lparr>result = ResultSet [''Meal_Type'', ''Total_Claims''] [], lastrowid = None\<rparr> = [] \<and>
   snd (run_query sqlite_execute (conn0 db1) top_meal_types_sql [] True) =
     Inr (Some \<lparr>columns = [''Meal_Type'', ''Total_Claims''], rows = []\<rparr>) \<and>
   Claims (db (conn0 db1)) = [] \<and>
   snd (analysis (conn0 db1) ''Top Meal Types Claimed'') =
     Inr (Some \<lparr>columns = [''Meal_Type'', ''Total_Claims''], rows = []\<rparr>)"
  using run_query_empty_table
    [of sqlite_execute "conn0 db1" top_meal_types_sql "[]" db1
        "\<lparr>result = ResultSet [''Meal_Type'', ''Total_Claims''] [], lastrowid = None\<rparr>"
        "conn0 db1"]
  by (simp add: sqlite_execute_top_meal_types top_meal_types_no_claims conn0_def db1_def
      fetchall_def description_def)

text \<open>
  The rounding of \<open>to_double\<close>: the result is an integer significand of at most 53 bits
  times a power of two, and lies within half a unit of the last place of the argument.
\<close>

lemma pow2_pos [simp]: "0 < pow2 e"
  by (simp add: pow2_def)

lemma pow2_nonneg [simp]: "0 \<le> pow2 e"
  by (simp add: pow2_def)

lemma pow2_of_nat: "pow2 (int n) = 2 ^ n"
  by (simp add: pow2_def)

lemma pow2_Suc: "pow2 (e + 1) = 2 * pow2 e"
proof (cases "0 \<le> e")
  case True
  then show ?thesis by (simp add: pow2_def nat_add_distrib)
next
  case False
  then have "nat (- e) = Suc (nat (- (e + 1)))" by simp
  then have "(2::rat) ^ nat (- e) = 2 * 2 ^ nat (- (e + 1))" by simp
  with False show ?thesis by (auto simp: pow2_def)
qed

lemma pow2_diff_nat:
  "pow2 (int a - int b) = 2 ^ a / 2 ^ b"
proof (induction b arbitrary: a)
  case 0
  then show ?case by (simp add: pow2_of_nat)
next
  case (Suc b)
  have "pow2 (int a - int (Suc b) + 1) = 2 * pow2 (int a - int (Suc b))"
    by (rule pow2_Suc)
  moreover have "int a - int (Suc b) + 1 = int a - int b" by simp
  ultimately have "pow2 (int a - int (Suc b)) = pow2 (int a - int b) / 2" by simp
  with Suc show ?case by simp
qed

lemma ilog2_bounds:
  assumes "0 < x"
  shows "pow2 (ilog2 x) \<le> x \<and> x < pow2 (ilog2 x + 1)"
proof -
  obtain p q where pq: "quotient_of x = (p, q)" by (cases "quotient_of x")
  then have q: "0 < q" and x: "x = of_int p / of_int q"
    by (auto dest: quotient_of_denom_pos quotient_of_div)
  with assms have p: "0 < p" by (simp add: zero_less_divide_iff)
  define a where "a = nat (bitlen p)"
  define b where "b = nat (bitlen q)"
  from p have p1: "1 \<le> bitlen p" by (auto simp: bitlen_alt_def)
  from q have q1: "1 \<le> bitlen q" by (auto simp: bitlen_alt_def)
  from p1 have a1: "1 \<le> a" and ap: "nat (bitlen p - 1) = a - 1"
    by (simp_all add: a_def nat_diff_distrib)
  from q1 have b1: "1 \<le> b" and bq': "nat (bitlen q - 1) = b - 1"
    by (simp_all add: b_def nat_diff_distrib)
  from bitlen_bounds [OF p] have bp: "2 ^ (a - 1) \<le> p" "p < 2 ^ a"
    by (simp_all add: ap flip: a_def)
  from bitlen_bounds [OF q] have bq: "2 ^ (b - 1) \<le> q" "q < 2 ^ b"
    by (simp_all add: bq' flip: b_def)
  have k: "bitlen p - bitlen q = int a - int b"
    by (simp add: a_def b_def bitlen_nonneg)
  have "of_int p < (2::rat) ^ a" using bp(2) by (metis of_int_less_iff of_int_numeral of_int_power)
  moreover have "(2::rat) ^ (b - 1) \<le> of_int q" using bq(1) by (metis of_int_le_iff of_int_numeral of_int_power)
  ultimately have "x < 2 ^ a / 2 ^ (b - 1)"
    unfolding x using p q by (intro frac_less) auto
  also have "\<dots> = pow2 (int a - int (b - 1))" by (simp add: pow2_diff_nat)
  also have "int a - int (b - 1) = int a - int b + 1" using b1 by simp
  finally have up: "x < pow2 (int a - int b + 1)" .
  have "(2::rat) ^ (a - 1) \<le> of_int p" using bp(1) by (metis of_int_le_iff of_int_numeral of_int_power)
  moreover have "of_int q < (2::rat) ^ b" using bq(2) by (metis of_int_less_iff of_int_numeral of_int_power)
  ultimately have "2 ^ (a - 1) / 2 ^ b < x"
    unfolding x using p q by (intro frac_less2) auto
  moreover have "pow2 (int a - int b - 1) = 2 ^ (a - 1) / 2 ^ b"
  proof -
    have "int a - int b - 1 = int (a - 1) - int b" using a1 by simp
    then show ?thesis by (simp only: pow2_diff_nat)
  qed
  ultimately have lo: "pow2 (int a - int b - 1) < x" by (simp only:)
  show ?thesis
  proof (cases "pow2 (int a - int b) \<le> x")
    case True
    with up show ?thesis by (simp add: ilog2_def pq k)
  next
    case False
    with lo show ?thesis by (simp add: ilog2_def pq k)
  qed
qed

lemma to_double_examples:
  "to_double 100 = 100"
  "to_double (1 / 10) = 3602879701896397 / 36028797018963968"
  "to_double (2 ^ 53 + 1) = 2 ^ 53"
  "to_double (2 ^ 53 + 3) = 2 ^ 53 + 4"
  by code_simp+


lemma round_even_near: "\<bar>of_int (round_even y) - y\<bar> \<le> 1 / 2"
proof -
  have "of_int \<lfloor>y\<rfloor> \<le> y" "y < of_int \<lfloor>y\<rfloor> + 1"
    by linarith+
  then show ?thesis
    by (auto simp: round_even_def Let_def)
qed

lemma round_even_mono: "of_int a \<le> y \<Longrightarrow> a \<le> round_even y"
proof -
  assume "of_int a \<le> y"
  then have "a \<le> \<lfloor>y\<rfloor>" by (simp add: le_floor_iff)
  moreover have "\<lfloor>y\<rfloor> \<le> round_even y" by (simp add: round_even_def Let_def)
  ultimately show ?thesis by simp
qed

lemma round_even_le: "y \<le> of_int b \<Longrightarrow> round_even y \<le> b"
proof -
  assume le: "y \<le> of_int b"
  show ?thesis
  proof (cases "y = of_int b")
    case True
    then show ?thesis by (simp add: round_even_def)
  next
    case False
    with le have "y < of_int b" by simp
    then have "\<lfloor>y\<rfloor> < b" by (simp add: floor_less_iff)
    then show ?thesis by (auto simp: round_even_def Let_def)
  qed
qed

lemma pow2_add: "pow2 (a + b) = pow2 a * pow2 b"
proof -
  have "pow2 e = 2 powi e" for e
    unfolding pow2_def power_int_def by (simp add: power_one_over inverse_eq_divide)
  then show ?thesis by (simp add: power_int_add)
qed

lemma to_double_nearest:
  assumes "0 < x"
  shows "\<exists>n. to_double x = of_int n * pow2 (ilog2 x - 52) \<and> 2 ^ 52 \<le> n \<and> n \<le> 2 ^ 53 \<and>
           \<bar>to_double x - x\<bar> \<le> pow2 (ilog2 x - 52) / 2"
proof -
  define e where "e = ilog2 x - 52"
  define y where "y = x / pow2 e"
  define n where "n = round_even y"
  from assms have td: "to_double x = of_int n * pow2 e"
    by (simp add: to_double_def Let_def e_def y_def n_def)
  have "pow2 e \<noteq> 0" by (metis pow2_pos less_irrefl)
  then have x: "x = y * pow2 e" by (simp add: y_def)
  have e1: "ilog2 x = e + 52" and e2: "ilog2 x + 1 = e + 53" by (simp_all add: e_def)
  have "pow2 (ilog2 x) = pow2 (e + 52)" by (simp only: e1)
  also have "\<dots> = pow2 e * pow2 52" by (simp only: pow2_add)
  also have "pow2 52 = 2 ^ 52" using pow2_of_nat [of 52] by simp
  finally have lo: "pow2 (ilog2 x) = pow2 e * 2 ^ 52" .
  have "pow2 (ilog2 x + 1) = pow2 (e + 53)" by (simp only: e2)
  also have "\<dots> = pow2 e * pow2 53" by (simp only: pow2_add)
  also have "pow2 53 = 2 ^ 53" using pow2_of_nat [of 53] by simp
  finally have hi: "pow2 (ilog2 x + 1) = pow2 e * 2 ^ 53" .
  from ilog2_bounds [OF assms] lo hi have "pow2 e * 2 ^ 52 \<le> x" "x < pow2 e * 2 ^ 53"
    by simp_all
  then have y: "2 ^ 52 \<le> y" "y < 2 ^ 53"
    by (simp_all add: y_def pos_le_divide_eq pos_divide_less_eq mult.commute)
  from y(1) have n1: "2 ^ 52 \<le> n"
    unfolding n_def by (intro round_even_mono) simp
  from y(2) have n2: "n \<le> 2 ^ 53"
    unfolding n_def by (intro round_even_le) simp
  from td x have "to_double x - x = (of_int n - y) * pow2 e"
    by (metis left_diff_distrib)
  then have "\<bar>to_double x - x\<bar> = \<bar>of_int n - y\<bar> * pow2 e"
    by (simp add: abs_mult abs_of_pos)
  also have "\<dots> \<le> 1 / 2 * pow2 e"
    using round_even_near [of y] by (intro mult_right_mono) (simp_all add: n_def)
  finally have "\<bar>to_double x - x\<bar> \<le> pow2 e / 2" by simp
  with td n1 n2 show ?thesis unfolding e_def by blast
qed

lemma percentage_2_3: "percentage 2 3 = RealV (4691249611844267 / 70368744177664)"
  by code_simp

lemma percentage_1_3: "percentage (Suc 0) 3 = RealV (4691249611844267 / 140737488355328)"
proof -
  have "percentage 1 3 = RealV (4691249611844267 / 140737488355328)"
    by code_simp
  then show ?thesis by simp
qed

lemma group_count_statuses:
  "group_count [''Pending'', ''Pending'', ''Completed''] = [(''Pending'', 2), (''Completed'', 1)]"
  by (simp add: group_count_def)

lemma claims_status_rows_example:
  assumes "map Status (Claims d) = [''Pending'', ''Pending'', ''Completed'']"
  shows "claims_status_rows d =
           [[TextV ''Pending'', RealV (4691249611844267 / 70368744177664)],
            [TextV ''Completed'', RealV (4691249611844267 / 140737488355328)]]"
proof -
  from assms have "length (map Status (Claims d)) = 3" by simp
  then have "length (Claims d) = 3" by simp
  with assms show ?thesis
    by (simp add: claims_status_rows_def group_count_statuses percentage_2_3 percentage_1_3)
qed

lemma sqlite_execute_claims_status:
  "sqlite_execute d claims_status_sql [] =
     Inr (d, \<lparr>result = ResultSet [''Status'', ''Percentage''] (claims_status_rows d),
              lastrowid = None\<rparr>)"
  by (simp add: sqlite_execute_def map_of_claims_status select_def)

lemma claims_status_rows_width:
  "list_all (\<lambda>r. length r = Suc (Suc 0)) (claims_status_rows d)"
  by (simp add: claims_status_rows_def list_all_iff)

lemma analysis_claims_status:
  "analysis c ''Claims Status %'' =
     (c\<lparr>executed := executed c @ [(claims_status_sql, [])]\<rparr>,
      Inr (Some \<lparr>columns = [''Status'', ''Percentage''], rows = claims_status_rows (db c)\<rparr>))"
  using run_query_select [of sqlite_execute c claims_status_sql "[]" "db c"
      "\<lparr>result = ResultSet [''Status'', ''Percentage''] (claims_status_rows (db c)), lastrowid = None\<rparr>"]
  by (simp add: analysis_def map_of_queries_status sqlite_execute_claims_status fetchall_def
      description_def DataFrame_def claims_status_rows_width)

text \<open>
  C8. On a Claims table whose statuses are Pending, Pending, Completed the analysis
  ``Claims Status %'' returns two rows, one for each status. The percentage of Pending is
  the double nearest to 200/3 and that of Completed the double nearest to 100/3 (the
  count times 100.0, divided by the number of claims); they differ from 66.67 and 33.33 by
  less than 0.005.
\<close>

theorem claims_status_percentages:
  assumes "map Status (Claims (db c)) = [''Pending'', ''Pending'', ''Completed'']"
  shows "\<exists>rs p q.
           snd (analysis c ''Claims Status %'') =
             Inr (Some \<lparr>columns = [''Status'', ''Percentage''], rows = rs\<rparr>) \<and>
           length rs = 2 \<and>
           set rs = {[TextV ''Pending'', RealV p], [TextV ''Completed'', RealV q]} \<and>
           p = to_double (to_double (2 * 100) / to_double 3) \<and>
           q = to_double (to_double (1 * 100) / to_double 3) \<and>
           \<bar>p - 6667 / 100\<bar> < 5 / 1000 \<and> \<bar>q - 3333 / 100\<bar> < 5 / 1000"
proof -
  let ?p = "4691249611844267 / 70368744177664 :: rat"
  let ?q = "4691249611844267 / 140737488355328 :: rat"
  let ?rs = "[[TextV ''Pending'', RealV ?p], [TextV ''Completed'', RealV ?q]]"
  have rows: "claims_status_rows (db c) = ?rs"
    using assms by (rule claims_status_rows_example)
  then have 1: "snd (analysis c ''Claims Status %'') =
      Inr (Some \<lparr>columns = [''Status'', ''Percentage''], rows = ?rs\<rparr>)"
    by (simp add: analysis_claims_status)
  have 2: "?p = to_double (to_double (2 * 100) / to_double 3)"
    by code_simp
  have 3: "?q = to_double (to_double (1 * 100) / to_double 3)"
    by code_simp
  have 4: "\<bar>?p - 6667 / 100\<bar> < 5 / 1000" by simp
  have 5: "\<bar>?q - 3333 / 100\<bar> < 5 / 1000" by simp
  have "length ?rs = 2 \<and> set ?rs = {[TextV ''Pending'', RealV ?p], [TextV ''Completed'', RealV ?q]}"
    by simp
  with 1 2 3 4 5 show ?thesis by blast
qed

theorem claims_status_percentages_witness:
  "map Status (Claims (db (conn0 db0))) = [''Pending'', ''Pending'', ''Completed''] \<and>
   (\<exists>rs. snd (analysis (conn0 db0) ''Claims Status %'') =
           Inr (Some \<lparr>columns = [''Status'', ''Percentage''], rows = rs\<rparr>) \<and> length rs = 2)"
proof -
  have "map Status (Claims (db (conn0 db0))) = [''Pending'', ''Pending'', ''Completed'']"
    by (simp add: conn0_def db0_def)
  with claims_status_percentages [of "conn0 db0"] show ?thesis by blast
qed

section \<open>Properties of the claim tab\<close>

subsection \<open>The timestamp\<close>

lemma is_digit_digit_char [simp]: "is_digit (digit_char d)"
proof -
  have "d mod 10 < length ''0123456789''" by simp
  then have "''0123456789'' ! (d mod 10) \<in> set ''0123456789''"
    by (rule nth_mem)
  then show ?thesis by (simp only: is_digit_def digit_char_def)
qed

lemma digits_four:
  assumes "1000 \<le> n" and "n \<le> 9999"
  shows "\<exists>a b c d. digits n = [a, b, c, d] \<and> is_digit a \<and> is_digit b \<and> is_digit c \<and> is_digit d"
proof -
  from assms have 1: "\<not> n < 10" "\<not> n div 10 < 10" "\<not> n div 10 div 10 < 10" "n div 10 div 10 div 10 < 10"
    by auto
  have "digits n = digits (n div 10) @ [digit_char (n mod 10)]"
    using 1(1) by (subst digits.simps) simp
  also have "digits (n div 10) = digits (n div 10 div 10) @ [digit_char (n div 10 mod 10)]"
    using 1(2) by (subst digits.simps) simp
  also have "digits (n div 10 div 10) =
      digits (n div 10 div 10 div 10) @ [digit_char (n div 10 div 10 mod 10)]"
    using 1(3) by (subst digits.simps) simp
  also have "digits (n div 10 div 10 div 10) = [digit_char (n div 10 div 10 div 10)]"
    using 1(4) by (subst digits.simps) simp
  finally show ?thesis by simp
qed

lemma strftime_format:
  assumes "valid_datetime t"
  shows "has_format ''YYYY-MM-DD HH:MM:SS'' (strftime t)"
proof -
  from assms have "1000 \<le> year t" "year t \<le> 9999" by (simp_all add: valid_datetime_def)
  from digits_four [OF this] obtain a b c d where
    "digits (year t) = [a, b, c, d]" "is_digit a" "is_digit b" "is_digit c" "is_digit d"
    by blast
  then show ?thesis
    by (simp add: strftime_def pad2_def)
qed

text \<open>Reading the timestamp back gives the clock reading it was formatted from.\<close>

lemma less_10_cases:
  "(k::nat) < 10 \<Longrightarrow>
   k = 0 \<or> k = 1 \<or> k = 2 \<or> k = 3 \<or> k = 4 \<or> k = 5 \<or> k = 6 \<or> k = 7 \<or> k = 8 \<or> k = 9"
  by arith

lemma digit_value_digit_char: "digit_value (digit_char d) = d mod 10"
proof -
  have "d mod 10 < 10" by simp
  from less_10_cases [OF this] show ?thesis
    by (elim disjE) (simp_all add: digit_value_def digit_char_def)
qed

lemma number_snoc: "number (s @ [ch]) = 10 * number s + digit_value ch"
  by (simp add: number_def)

lemma number_digits: "number (digits n) = n"
proof (induction n rule: digits.induct)
  case (1 n)
  show ?case
  proof (cases "n < 10")
    case True
    then show ?thesis
      by (subst digits.simps) (simp add: number_def digit_value_digit_char)
  next
    case False
    with "1" have "number (digits (n div 10)) = n div 10" by simp
    with False show ?thesis
      by (subst digits.simps) (simp add: number_snoc digit_value_digit_char)
  qed
qed

lemma number_pad2: "n < 100 \<Longrightarrow> number (pad2 n) = n"
proof -
  assume "n < 100"
  then have "n div 10 mod 10 = n div 10" by simp
  then show ?thesis
    by (simp add: pad2_def number_def digit_value_digit_char)
qed

lemma length_pad2 [simp]: "length (pad2 n) = 2"
  by (simp add: pad2_def)

lemma read_timestamp_strftime:
  assumes "valid_datetime t"
  shows "read_timestamp (strftime t) = Some t"
proof -
  from assms have y: "1000 \<le> year t" "year t \<le> 9999"
    and f: "month t < 100" "day t < 100" "hour t < 100" "minute t < 100" "second t < 100"
    by (simp_all add: valid_datetime_def)
  from digits_four [OF y] have len: "length (digits (year t)) = 4" by auto
  have parts:
    "take 4 (strftime t) = digits (year t)"
    "take 2 (drop 5 (strftime t)) = pad2 (month t)"
    "take 2 (drop 8 (strftime t)) = pad2 (day t)"
    "take 2 (drop 11 (strftime t)) = pad2 (hour t)"
    "take 2 (drop 14 (strftime t)) = pad2 (minute t)"
    "take 2 (drop 17 (strftime t)) = pad2 (second t)"
    by (simp_all add: strftime_def len)
  from strftime_format [OF assms] have
    "read_timestamp (strftime t) =
       Some \<lparr>year = number (digits (year t)), month = number (pad2 (month t)),
             day = number (pad2 (day t)), hour = number (pad2 (hour t)),
             minute = number (pad2 (minute t)), second = number (pad2 (second t))\<rparr>"
    by (simp only: read_timestamp_def parts if_True)
  with f show ?thesis
    by (simp add: number_digits number_pad2)
qed

subsection \<open>The two dictionaries\<close>

lemma map_of_comprehension:
  "map_of (foldl (\<lambda>m row. AList.update (k row) (v row) m) m0 rs) x =
     (case find (\<lambda>row. k row = x) (rev rs) of
        None \<Rightarrow> map_of m0 x
      | Some row \<Rightarrow> Some (v row))"
  by (induction rs rule: rev_induct) (simp_all add: update_conv')

lemma keys_update: "fst ` set (AList.update a b al) = insert a (fst ` set al)"
  using dom_update [of a b al] by (simp add: dom_map_of_conv_image_fst)

lemma keys_comprehension:
  "fst ` set (foldl (\<lambda>m row. AList.update (k row) (v row) m) m0 rs) =
     fst ` set m0 \<union> k ` set rs"
  by (induction rs rule: rev_induct) (auto simp: keys_update)

lemma distinct_comprehension:
  "distinct (map fst m0) \<Longrightarrow>
   distinct (map fst (foldl (\<lambda>m row. AList.update (k row) (v row) m) m0 rs))"
  by (induction rs rule: rev_induct) (simp_all add: distinct_update)

lemma map_of_rx_map:
  "map_of (rx_map rs) x = map_option Receiver_ID (find (\<lambda>row. rx_label row = x) (rev rs))"
  by (simp add: rx_map_def map_of_comprehension split: option.splits)

lemma map_of_fx_map:
  "map_of (fx_map rs) x = map_option Food_ID (find (\<lambda>row. fx_label row = x) (rev rs))"
  by (simp add: fx_map_def map_of_comprehension split: option.splits)

lemma keys_rx_map: "fst ` set (rx_map rs) = rx_label ` set rs"
  by (simp add: rx_map_def keys_comprehension)

lemma keys_fx_map: "fst ` set (fx_map rs) = fx_label ` set rs"
  by (simp add: fx_map_def keys_comprehension)

lemma lookup_key:
  assumes "x \<in> set (map fst m)"
  shows "\<exists>v. lookup m x = Inr v \<and> (x, v) \<in> set m"
proof -
  from assms have "map_of m x \<noteq> None"
    by (simp add: map_of_eq_None_iff)
  then obtain v where "map_of m x = Some v" by blast
  then show ?thesis
    by (auto simp: lookup_def dest: map_of_SomeD)
qed

lemma find_SomeD: "find P xs = Some x \<Longrightarrow> x \<in> set xs \<and> P x"
  by (induction xs) (auto split: if_splits)

lemma lookup_rx_map:
  assumes "x \<in> set (map fst (rx_map rs))"
  shows "\<exists>row \<in> set rs. rx_label row = x \<and> lookup (rx_map rs) x = Inr (Receiver_ID row)"
proof -
  from assms have "x \<in> rx_label ` set rs" by (simp add: keys_rx_map)
  then have "find (\<lambda>row. rx_label row = x) (rev rs) \<noteq> None"
    by (auto simp: find_None_iff)
  then obtain row where f: "find (\<lambda>row. rx_label row = x) (rev rs) = Some row" by blast
  then have "row \<in> set rs" "rx_label row = x"
    by (auto dest: find_SomeD)
  moreover from f have "lookup (rx_map rs) x = Inr (Receiver_ID row)"
    by (simp add: lookup_def map_of_rx_map)
  ultimately show ?thesis by blast
qed

lemma lookup_fx_map:
  assumes "x \<in> set (map fst (fx_map rs))"
  shows "\<exists>row \<in> set rs. fx_label row = x \<and> lookup (fx_map rs) x = Inr (Food_ID row)"
proof -
  from assms have "x \<in> fx_label ` set rs" by (simp add: keys_fx_map)
  then have "find (\<lambda>row. fx_label row = x) (rev rs) \<noteq> None"
    by (auto simp: find_None_iff)
  then obtain row where f: "find (\<lambda>row. fx_label row = x) (rev rs) = Some row" by blast
  then have "row \<in> set rs" "fx_label row = x"
    by (auto dest: find_SomeD)
  moreover from f have "lookup (fx_map rs) x = Inr (Food_ID row)"
    by (simp add: lookup_def map_of_fx_map)
  ultimately show ?thesis by blast
qed

lemma find_append_cases:
  "find P (xs @ ys) = (case find P xs of None \<Rightarrow> find P ys | Some x \<Rightarrow> Some x)"
  by (induction xs) auto

lemma find_rev_last:
  "find P (rev rs) = Some r \<Longrightarrow> \<exists>xs ys. rs = xs @ r # ys \<and> P r \<and> (\<forall>y \<in> set ys. \<not> P y)"
proof (induction rs rule: rev_induct)
  case Nil
  then show ?case by simp
next
  case (snoc a rs)
  show ?case
  proof (cases "P a")
    case True
    with snoc.prems have "r = a" by simp
    with True have "rs @ [a] = rs @ r # [] \<and> P r \<and> (\<forall>y \<in> set []. \<not> P y)" by simp
    then show ?thesis by blast
  next
    case False
    with snoc.prems have "find P (rev rs) = Some r" by simp
    from snoc.IH [OF this] obtain xs ys where
      "rs = xs @ r # ys" "P r" "\<forall>y \<in> set ys. \<not> P y" by blast
    with False have "rs @ [a] = xs @ r # (ys @ [a]) \<and> P r \<and> (\<forall>y \<in> set (ys @ [a]). \<not> P y)"
      by simp
    then show ?thesis by blast
  qed
qed

lemma find_rev_later:
  assumes "j < length rs" and "P (rs ! j)" and "\<forall>m. j < m \<and> m < length rs \<longrightarrow> \<not> P (rs ! m)"
  shows "find P (rev rs) = Some (rs ! j)"
proof -
  have rs: "rs = take j rs @ rs ! j # drop (Suc j) rs"
    using assms(1) by (rule id_take_nth_drop)
  have "\<not> P y" if "y \<in> set (drop (Suc j) rs)" for y
  proof -
    from that obtain n where "n < length (drop (Suc j) rs)" "y = drop (Suc j) rs ! n"
      by (auto simp: in_set_conv_nth)
    then have "y = rs ! (Suc j + n)" "Suc j + n < length rs" by auto
    with assms(3) show ?thesis by auto
  qed
  then have "find P (rev (drop (Suc j) rs)) = None"
    by (simp add: find_None_iff)
  moreover have "rev rs = rev (drop (Suc j) rs) @ rs ! j # rev (take j rs)"
    by (subst rs) simp
  ultimately show ?thesis
    using assms(2) by (simp add: find_append_cases)
qed

lemma comprehension_later_row:
  assumes "i < j" and "j < length rs" and "k (rs ! i) = k (rs ! j)"
    and "\<forall>m. j < m \<and> m < length rs \<longrightarrow> k (rs ! m) \<noteq> k (rs ! j)"
  shows "map_of (foldl (\<lambda>m row. AList.update (k row) (v row) m) [] rs) (k (rs ! i)) = Some (v (rs ! j))"
proof -
  have "find (\<lambda>row. k row = k (rs ! j)) (rev rs) = Some (rs ! j)"
    using assms(2,4) by (intro find_rev_later) auto
  with assms(3) show ?thesis
    by (simp add: map_of_comprehension)
qed

lemma comprehension_earlier_row_absent:
  assumes "i < j" and "j < length rs" and "k (rs ! i) = k (rs ! j)" and "distinct (map v rs)"
  shows "v (rs ! i) \<notin> snd ` set (foldl (\<lambda>m row. AList.update (k row) (v row) m) [] rs)"
proof
  let ?m = "foldl (\<lambda>m row. AList.update (k row) (v row) m) [] rs"
  assume "v (rs ! i) \<in> snd ` set ?m"
  then obtain x where "(x, v (rs ! i)) \<in> set ?m" by force
  moreover have "distinct (map fst ?m)"
    by (rule distinct_comprehension) simp
  ultimately have "map_of ?m x = Some (v (rs ! i))" by simp
  then obtain r where r: "find (\<lambda>row. k row = x) (rev rs) = Some r" "v r = v (rs ! i)"
    by (auto simp: map_of_comprehension split: option.splits)
  from find_rev_last [OF r(1)] obtain xs ys where
    dec: "rs = xs @ r # ys" "k r = x" "\<forall>y \<in> set ys. k y \<noteq> x" by blast
  from assms(1,2) have i: "i < length rs" by simp
  from assms(4) have inj: "inj_on v (set rs)" and d: "distinct rs"
    by (simp_all add: distinct_map)
  from dec(1) have "r \<in> set rs" by (subst dec(1)) simp
  with inj r(2) i have "r = rs ! i" by (auto dest: inj_onD)
  moreover from dec(1) have "rs ! length xs = r" "length xs < length rs"
    by (subst dec(1), simp)+
  ultimately have "i = length xs"
    using d i by (simp add: nth_eq_iff_index_eq)
  with assms(1,2) dec(1) have "rs ! j = ys ! (j - Suc (length xs))" "j - Suc (length xs) < length ys"
    by (subst dec(1), auto simp: nth_append nth_Cons')+
  then have "rs ! j \<in> set ys" by simp
  with dec(3) have "k (rs ! j) \<noteq> x" by blast
  with assms(3) dec(2) \<open>r = rs ! i\<close> show False by simp
qed

lemma rx_map_nonempty: "receivers_df \<noteq> [] \<Longrightarrow> rx_map receivers_df \<noteq> []"
proof
  assume "receivers_df \<noteq> []" and "rx_map receivers_df = []"
  then have "rx_label ` set receivers_df = {}"
    using keys_rx_map [of receivers_df] by simp
  with \<open>receivers_df \<noteq> []\<close> show False by simp
qed

lemma fx_map_nonempty: "food_df \<noteq> [] \<Longrightarrow> fx_map food_df \<noteq> []"
proof
  assume "food_df \<noteq> []" and "fx_map food_df = []"
  then have "fx_label ` set food_df = {}"
    using keys_fx_map [of food_df] by simp
  with \<open>food_df \<noteq> []\<close> show False by simp
qed

subsection \<open>The insert\<close>

lemma next_rowid_fresh:
  assumes "\<forall>i \<in> set ids. i < 2 ^ 63 - 1"
  shows "\<exists>i. next_rowid ids = Some i \<and> i \<notin> set ids"
proof (cases "ids = []")
  case True
  then show ?thesis by (simp add: next_rowid_def)
next
  case False
  then have "Max (set ids) \<in> set ids" by simp
  with assms have "Max (set ids) < 2 ^ 63 - 1" by blast
  moreover have "Max (set ids) + 1 \<notin> set ids"
  proof
    assume "Max (set ids) + 1 \<in> set ids"
    then have "Max (set ids) + 1 \<le> Max (set ids)"
      using Max_ge [of "set ids" "Max (set ids) + 1"] by simp
    then show False by simp
  qed
  ultimately show ?thesis using False by (simp add: next_rowid_def)
qed

lemma assign_rowid_next:
  "next_rowid ids = Some i \<Longrightarrow> assign_rowid rnd ids = Some (i, rnd)"
  by (simp add: assign_rowid_def)

lemma assign_rowid_fresh:
  assumes "assign_rowid rnd ids = Some (i, rnd')"
  shows "i \<notin> set ids"
proof (cases "next_rowid ids")
  case (Some k)
  with assms have k: "k = i" by (simp add: assign_rowid_def)
  show ?thesis
  proof (cases "ids = []")
    case True
    then show ?thesis by simp
  next
    case False
    with Some k have "i = Max (set ids) + 1"
      by (simp add: next_rowid_def split: if_splits)
    moreover have "Max (set ids) + 1 \<notin> set ids"
    proof
      assume "Max (set ids) + 1 \<in> set ids"
      then have "Max (set ids) + 1 \<le> Max (set ids)"
        using Max_ge [of "set ids" "Max (set ids) + 1"] by simp
      then show False by simp
    qed
    ultimately show ?thesis by simp
  qed
next
  case None
  with assms obtain n where
    "find (\<lambda>n. candidate rnd n \<notin> set ids) [0..<100] = Some n" "i = candidate rnd n"
    by (auto simp: assign_rowid_def split: option.splits)
  then show ?thesis by (auto dest: find_SomeD)
qed

lemma update_rowid_random_same:
  "d\<lparr>Claims := cs, rowid_random := rowid_random d\<rparr> = d\<lparr>Claims := cs\<rparr>"
  by (cases d) simp

lemma sqlite_execute_insert_assigned:
  assumes "assign_rowid (rowid_random d) (map Claim_ID (Claims d)) = Some (i, rnd)"
  shows "sqlite_execute d insert_claim_sql [IntV food_id, IntV receiver_id, TextV st, TextV ts] =
           Inr (d\<lparr>Claims := Claims d @
                  [\<lparr>Claim_ID = i, c_Food_ID = food_id, c_Receiver_ID = receiver_id,
                    Status = st, Timestamp = ts\<rparr>],
                  rowid_random := rnd\<rparr>,
                \<lparr>result = NoResultSet, lastrowid = Some i\<rparr>)"
  using assms by (simp add: sqlite_execute_def map_of_insert_claim insert_claim_def)

lemma sqlite_execute_insert_claim:
  assumes "next_rowid (map Claim_ID (Claims d)) = Some i"
  shows "sqlite_execute d insert_claim_sql [IntV food_id, IntV receiver_id, TextV st, TextV ts] =
           Inr (d\<lparr>Claims := Claims d @
                  [\<lparr>Claim_ID = i, c_Food_ID = food_id, c_Receiver_ID = receiver_id,
                    Status = st, Timestamp = ts\<rparr>]\<rparr>,
                \<lparr>result = NoResultSet, lastrowid = Some i\<rparr>)"
proof -
  from assms have "assign_rowid (rowid_random d) (map Claim_ID (Claims d)) = Some (i, rowid_random d)"
    by (rule assign_rowid_next)
  from sqlite_execute_insert_assigned [OF this, of food_id receiver_id st ts] show ?thesis
    by (simp only: update_rowid_random_same)
qed

lemma run_write_insert_assigned:
  assumes "assign_rowid (rowid_random (db c)) (map Claim_ID (Claims (db c))) = Some (i, rnd)"
  shows "run_write sqlite_execute c insert_claim_sql
           [IntV food_id, IntV receiver_id, TextV st, TextV ts] =
           (\<lparr>db = (db c)\<lparr>Claims := Claims (db c) @
                  [\<lparr>Claim_ID = i, c_Food_ID = food_id, c_Receiver_ID = receiver_id,
                    Status = st, Timestamp = ts\<rparr>],
                  rowid_random := rnd\<rparr>,
              executed = executed c @
                [(insert_claim_sql, [IntV food_id, IntV receiver_id, TextV st, TextV ts])]\<rparr>,
            Inr (Some i))"
  using sqlite_execute_insert_assigned [OF assms, of food_id receiver_id st ts]
  by (simp add: run_write_def execute_def)

lemma make_claim_assigned:
  assumes "receivers_df \<noteq> []" and "food_df \<noteq> []" and "submit form"
    and "lookup (fx_map food_df) (selected_food form) = Inr food_id"
    and "lookup (rx_map receivers_df) (selected_rx form) = Inr receiver_id"
    and "assign_rowid (rowid_random (db c)) (map Claim_ID (Claims (db c))) = Some (i, rnd)"
  shows "make_claim c receivers_df food_df form now =
           (\<lparr>db = (db c)\<lparr>Claims := Claims (db c) @
                  [\<lparr>Claim_ID = i, c_Food_ID = food_id, c_Receiver_ID = receiver_id,
                    Status = claim_status form, Timestamp = strftime now\<rparr>],
                  rowid_random := rnd\<rparr>,
              executed = executed c @
                [(insert_claim_sql,
                  [IntV food_id, IntV receiver_id, TextV (claim_status form),
                   TextV (strftime now)])]\<rparr>,
            Inr (Written (Some i)))"
  using assms by (simp add: make_claim_def run_write_insert_assigned)

lemma run_write_insert_claim:
  assumes "next_rowid (map Claim_ID (Claims (db c))) = Some i"
  shows "run_write sqlite_execute c insert_claim_sql
           [IntV food_id, IntV receiver_id, TextV st, TextV ts] =
           (\<lparr>db = (db c)\<lparr>Claims := Claims (db c) @
                  [\<lparr>Claim_ID = i, c_Food_ID = food_id, c_Receiver_ID = receiver_id,
                    Status = st, Timestamp = ts\<rparr>]\<rparr>,
              executed = executed c @
                [(insert_claim_sql, [IntV food_id, IntV receiver_id, TextV st, TextV ts])]\<rparr>,
            Inr (Some i))"
  using sqlite_execute_insert_claim [OF assms, of food_id receiver_id st ts]
  by (simp add: run_write_def execute_def)

lemma make_claim_submit:
  assumes "receivers_df \<noteq> []" and "food_df \<noteq> []" and "submit form"
    and "lookup (fx_map food_df) (selected_food form) = Inr food_id"
    and "lookup (rx_map receivers_df) (selected_rx form) = Inr receiver_id"
    and "next_rowid (map Claim_ID (Claims (db c))) = Some i"
  shows "make_claim c receivers_df food_df form now =
           (\<lparr>db = (db c)\<lparr>Claims := Claims (db c) @
                  [\<lparr>Claim_ID = i, c_Food_ID = food_id, c_Receiver_ID = receiver_id,
                    Status = claim_status form, Timestamp = strftime now\<rparr>]\<rparr>,
              executed = executed c @
                [(insert_claim_sql,
                  [IntV food_id, IntV receiver_id, TextV (claim_status form),
                   TextV (strftime now)])]\<rparr>,
            Inr (Written (Some i)))"
  using assms by (simp add: make_claim_def run_write_insert_claim)

lemma make_claim_written:
  assumes "make_claim c receivers_df food_df form now = (c', Inr (Written w))"
  shows "\<exists>food_id receiver_id i.
           lookup (fx_map food_df) (selected_food form) = Inr food_id \<and>
           lookup (rx_map receivers_df) (selected_rx form) = Inr receiver_id \<and>
           w = Some i \<and>
           Claims (db c') = Claims (db c) @
             [\<lparr>Claim_ID = i, c_Food_ID = food_id, c_Receiver_ID = receiver_id,
               Status = claim_status form, Timestamp = strftime now\<rparr>]"
proof -
  from assms obtain food_id receiver_id where
    l: "lookup (fx_map food_df) (selected_food form) = Inr food_id"
       "lookup (rx_map receivers_df) (selected_rx form) = Inr receiver_id"
    and w: "run_write sqlite_execute c insert_claim_sql
              [IntV food_id, IntV receiver_id, TextV (claim_status form), TextV (strftime now)] =
            (c', Inr w)"
    by (auto simp: make_claim_def split: if_splits sum.splits prod.splits)
  have "\<exists>i. w = Some i \<and>
    Claims (db c') = Claims (db c) @
             [\<lparr>Claim_ID = i, c_Food_ID = food_id, c_Receiver_ID = receiver_id,
               Status = claim_status form, Timestamp = strftime now\<rparr>]"
  proof (cases "assign_rowid (rowid_random (db c)) (map Claim_ID (Claims (db c)))")
    case None
    then have "sqlite_execute (db c) insert_claim_sql
        [IntV food_id, IntV receiver_id, TextV (claim_status form), TextV (strftime now)] =
        Inl DatabaseError"
      by (simp add: sqlite_execute_def map_of_insert_claim insert_claim_def)
    with w show ?thesis
      by (simp add: run_write_def execute_def)
  next
    case (Some a)
    then obtain i rnd where
      "assign_rowid (rowid_random (db c)) (map Claim_ID (Claims (db c))) = Some (i, rnd)"
      by (cases a) simp
    from run_write_insert_assigned
      [OF this, of food_id receiver_id "claim_status form" "strftime now"] w
    show ?thesis by auto
  qed
  then obtain i where "w = Some i"
    "Claims (db c') = Claims (db c) @
             [\<lparr>Claim_ID = i, c_Food_ID = food_id, c_Receiver_ID = receiver_id,
               Status = claim_status form, Timestamp = strftime now\<rparr>]"
    by blast
  with l show ?thesis by simp
qed

lemma make_claim_skipped:
  "receivers_df = [] \<or> food_df = [] \<Longrightarrow> make_claim c receivers_df food_df form now = (c, Inr Skipped)"
  by (auto simp: make_claim_def)

text \<open>The dictionaries, the clock and the next identifier on the example state.\<close>

lemma rx_map_db0: "rx_map (Receivers db0) = [(''Ravi (Pune)'', 2), (''Meera (Delhi)'', 3)]"
  by (simp add: rx_map_def db0_def rx_label_def)

lemma fx_map_db0:
  "fx_map (Food_Listings db0) =
     [(''Rice | Pune (Qty: 5)'', 4), (''Bread | Delhi (Qty: 0)'', 2), (''Soup | Pune (Qty: 3)'', 3)]"
  by (simp add: fx_map_def db0_def fx_label_def str_int_def digits.simps digit_char_def)

lemma strftime_example:
  "strftime \<lparr>year = 2025, month = 3, day = 2, hour = 8, minute = 5, second = 9\<rparr> = ''2025-03-02 08:05:09''"
  by (simp add: strftime_def pad2_def digits.simps digit_char_def)

lemma next_rowid_db0: "next_rowid (map Claim_ID (Claims db0)) = Some 4"
  by (simp add: next_rowid_def db0_def)

lemma assign_rowid_small:
  assumes "\<forall>i \<in> set ids. i < 2 ^ 63 - 1"
  shows "\<exists>i. assign_rowid rnd ids = Some (i, rnd)"
  using next_rowid_fresh [OF assms] by (auto simp: assign_rowid_def)

lemma assign_rowid_found:
  assumes "(\<forall>k \<in> set ids. k < 2 ^ 63 - 1) \<or>
           find (\<lambda>n. candidate rnd n \<notin> set ids) [0..<100] \<noteq> None"
  shows "\<exists>i rnd'. assign_rowid rnd ids = Some (i, rnd')"
  using assms
proof
  assume "\<forall>k \<in> set ids. k < 2 ^ 63 - 1"
  from assign_rowid_small [OF this] show ?thesis by blast
next
  assume "find (\<lambda>n. candidate rnd n \<notin> set ids) [0..<100] \<noteq> None"
  then show ?thesis
    by (auto simp: assign_rowid_def split: option.splits)
qed

lemma strftime_evening:
  "strftime \<lparr>year = 2025, month = 11, day = 30, hour = 20, minute = 5, second = 59\<rparr> =
     ''2025-11-30 20:05:59''"
  by (simp add: strftime_def pad2_def digits.simps digit_char_def)

lemma next_rowid_db2: "next_rowid (map Claim_ID (Claims db2)) = None"
  by (simp add: next_rowid_def db2_def)

lemma find_candidate_db2:
  "find (\<lambda>n. candidate (\<lambda>n. 3 * int n) n \<notin> set [1, 2 ^ 63 - 1]) [0..<100] = Some 1"
  by code_simp

lemma assign_rowid_db2:
  "assign_rowid (rowid_random db2) (map Claim_ID (Claims db2)) = Some (4, \<lambda>m. 3 * int (m + 2))"
proof -
  have "rowid_random db2 = (\<lambda>n. 3 * int n)" "map Claim_ID (Claims db2) = [1, 2 ^ 63 - 1]"
    by (simp_all add: db2_def db0_def)
  with next_rowid_db2 find_candidate_db2 show ?thesis
    by (simp add: assign_rowid_def candidate_def)
qed

text \<open>
  C6. Let the receiver and the food item be options of the two select boxes, the status
  one of Pending, Completed, Cancelled, the clock reading a valid date and time, and the
  button pressed; and let the engine find a free identifier, which it does whenever the
  largest identifier is not in use and otherwise whenever one of the 100 candidates it
  draws is free. Then the run executes exactly one statement, the INSERT, and the Claims
  table afterwards is the table before followed by one new row. That row carries the
  \<open>Food_ID\<close> of a listing displayed under the chosen label and the \<open>Receiver_ID\<close> of a
  receiver displayed under the chosen label (the identifiers the dictionaries resolve the
  labels to), the chosen status, and the clock reading formatted as
  \<open>YYYY-MM-DD HH:MM:SS\<close>: the timestamp has that format, and its fields read back as
  numbers are the year, month, day, hour, minute and second of the clock reading. The
  value \<open>run_write\<close> returns is the identifier of the new row, which no earlier claim
  has. Nothing is asked of the quantity of the listing or of earlier claims on it, and
  the other tables are unchanged.
\<close>

theorem claim_creation_inserts_one_row:
  assumes "selected_rx form \<in> set (map fst (rx_map (Receivers (db c))))"
    and "selected_food form \<in> set (map fst (fx_map (Food_Listings (db c))))"
    and "claim_status form \<in> set status_opt"
    and "submit form"
    and "valid_datetime now"
    and "(\<forall>k \<in> set (map Claim_ID (Claims (db c))). k < 2 ^ 63 - 1) \<or>
         find (\<lambda>n. candidate (rowid_random (db c)) n \<notin> set (map Claim_ID (Claims (db c))))
           [0..<100] \<noteq> None"
  shows "\<exists>x y i c'.
           x \<in> set (Receivers (db c)) \<and> rx_label x = selected_rx form \<and>
           lookup (rx_map (Receivers (db c))) (selected_rx form) = Inr (Receiver_ID x) \<and>
           y \<in> set (Food_Listings (db c)) \<and> fx_label y = selected_food form \<and>
           lookup (fx_map (Food_Listings (db c))) (selected_food form) = Inr (Food_ID y) \<and>
           claim_flow c form now = (c', Inr (Written (Some i))) \<and>
           executed c' = executed c @
             [(insert_claim_sql,
               [IntV (Food_ID y), IntV (Receiver_ID x), TextV (claim_status form),
                TextV (strftime now)])] \<and>
           Claims (db c') = Claims (db c) @
             [\<lparr>Claim_ID = i, c_Food_ID = Food_ID y, c_Receiver_ID = Receiver_ID x,
               Status = claim_status form, Timestamp = strftime now\<rparr>] \<and>
           Providers (db c') = Providers (db c) \<and> Receivers (db c') = Receivers (db c) \<and>
           Food_Listings (db c') = Food_Listings (db c) \<and>
           i \<notin> set (map Claim_ID (Claims (db c))) \<and>
           has_format ''YYYY-MM-DD HH:MM:SS'' (strftime now) \<and>
           read_timestamp (strftime now) = Some now"
proof -
  from lookup_rx_map [OF assms(1)] obtain x where
    x: "x \<in> set (Receivers (db c))" "rx_label x = selected_rx form"
       "lookup (rx_map (Receivers (db c))) (selected_rx form) = Inr (Receiver_ID x)"
    by blast
  from lookup_fx_map [OF assms(2)] obtain y where
    y: "y \<in> set (Food_Listings (db c))" "fx_label y = selected_food form"
       "lookup (fx_map (Food_Listings (db c))) (selected_food form) = Inr (Food_ID y)"
    by blast
  from assms(6) obtain i rnd where
    a: "assign_rowid (rowid_random (db c)) (map Claim_ID (Claims (db c))) = Some (i, rnd)"
    using assign_rowid_found by blast
  from assign_rowid_fresh [OF a] have i: "i \<notin> set (map Claim_ID (Claims (db c)))" .
  from x(1) y(1) have ne: "Receivers (db c) \<noteq> []" "Food_Listings (db c) \<noteq> []"
    by auto
  define c' where "c' =
     \<lparr>db = (db c)\<lparr>Claims := Claims (db c) @
                  [\<lparr>Claim_ID = i, c_Food_ID = Food_ID y, c_Receiver_ID = Receiver_ID x,
                    Status = claim_status form, Timestamp = strftime now\<rparr>],
                  rowid_random := rnd\<rparr>,
       executed = executed c @
                  [(insert_claim_sql,
                    [IntV (Food_ID y), IntV (Receiver_ID x), TextV (claim_status form),
                     TextV (strftime now)])]\<rparr>"
  have run: "claim_flow c form now = (c', Inr (Written (Some i)))"
    unfolding claim_flow_def c'_def
    by (rule make_claim_assigned [OF ne assms(4) y(3) x(3) a])
  have st: "executed c' = executed c @
             [(insert_claim_sql,
               [IntV (Food_ID y), IntV (Receiver_ID x), TextV (claim_status form),
                TextV (strftime now)])]"
    "Claims (db c') = Claims (db c) @
             [\<lparr>Claim_ID = i, c_Food_ID = Food_ID y, c_Receiver_ID = Receiver_ID x,
               Status = claim_status form, Timestamp = strftime now\<rparr>]"
    "Providers (db c') = Providers (db c)" "Receivers (db c') = Receivers (db c)"
    "Food_Listings (db c') = Food_Listings (db c)"
    by (simp_all add: c'_def)
  from x y run st i strftime_format [OF assms(5)] read_timestamp_strftime [OF assms(5)]
  show ?thesis by blast
qed

theorem claim_creation_inserts_one_row_witness:
  "selected_rx \<lparr>selected_rx = ''Ravi (Pune)'', selected_food = ''Bread | Delhi (Qty: 0)'',
                 claim_status = ''Pending'', submit = True\<rparr>
     \<in> set (map fst (rx_map (Receivers (db (conn0 db2))))) \<and>
   selected_food \<lparr>selected_rx = ''Ravi (Pune)'', selected_food = ''Bread | Delhi (Qty: 0)'',
                   claim_status = ''Pending'', submit = True\<rparr>
     \<in> set (map fst (fx_map (Food_Listings (db (conn0 db2))))) \<and>
   ''Pending'' \<in> set status_opt \<and>
   valid_datetime \<lparr>year = 2025, month = 11, day = 30, hour = 20, minute = 5, second = 59\<rparr> \<and>
   2 ^ 63 - 1 \<in> set (map Claim_ID (Claims (db (conn0 db2)))) \<and>
   find (\<lambda>n. candidate (rowid_random (db (conn0 db2))) n
                \<notin> set (map Claim_ID (Claims (db (conn0 db2))))) [0..<100] = Some 1 \<and>
   (\<exists>c'. claim_flow (conn0 db2)
            \<lparr>selected_rx = ''Ravi (Pune)'', selected_food = ''Bread | Delhi (Qty: 0)'',
              claim_status = ''Pending'', submit = True\<rparr>
            \<lparr>year = 2025, month = 11, day = 30, hour = 20, minute = 5, second = 59\<rparr> =
          (c', Inr (Written (Some 4))) \<and>
        executed c' =
          [(insert_claim_sql,
            [IntV 2, IntV 2, TextV ''Pending'', TextV ''2025-11-30 20:05:59''])] \<and>
        Claims (db c') = Claims db2 @
          [\<lparr>Claim_ID = 4, c_Food_ID = 2, c_Receiver_ID = 2, Status = ''Pending'',
            Timestamp = ''2025-11-30 20:05:59''\<rparr>] \<and>
        Providers (db c') = Providers db2 \<and> Receivers (db c') = Receivers db2 \<and>
        Food_Listings (db c') = Food_Listings db2) \<and>
   read_timestamp ''2025-11-30 20:05:59'' =
     Some \<lparr>year = 2025, month = 11, day = 30, hour = 20, minute = 5, second = 59\<rparr>"
proof -
  let ?form = "\<lparr>selected_rx = ''Ravi (Pune)'', selected_food = ''Bread | Delhi (Qty: 0)'',
                 claim_status = ''Pending'', submit = True\<rparr>"
  let ?now = "\<lparr>year = 2025, month = 11, day = 30, hour = 20, minute = 5, second = 59\<rparr>"
  have tabs: "Receivers db2 = Receivers db0" "Food_Listings db2 = Food_Listings db0"
    by (simp_all add: db2_def)
  have 1: "selected_rx ?form \<in> set (map fst (rx_map (Receivers (db (conn0 db2)))))"
    by (simp add: conn0_def tabs rx_map_db0)
  have 2: "selected_food ?form \<in> set (map fst (fx_map (Food_Listings (db (conn0 db2)))))"
    by (simp add: conn0_def tabs fx_map_db0)
  have 3: "claim_status ?form \<in> set status_opt"
    by (simp add: status_opt_def)
  have 4: "submit ?form" by simp
  have 5: "valid_datetime ?now"
    by (simp add: valid_datetime_def)
  have a: "assign_rowid (rowid_random (db (conn0 db2))) (map Claim_ID (Claims (db (conn0 db2)))) =
      Some (4, \<lambda>m. 3 * int (m + 2))"
    by (simp add: conn0_def assign_rowid_db2)
  have f: "find (\<lambda>n. candidate (rowid_random (db (conn0 db2))) n
                \<notin> set (map Claim_ID (Claims (db (conn0 db2))))) [0..<100] = Some 1"
    using find_candidate_db2 by (simp add: conn0_def db2_def db0_def)
  then have 6: "(\<forall>k \<in> set (map Claim_ID (Claims (db (conn0 db2)))). k < 2 ^ 63 - 1) \<or>
      find (\<lambda>n. candidate (rowid_random (db (conn0 db2))) n
                \<notin> set (map Claim_ID (Claims (db (conn0 db2))))) [0..<100] \<noteq> None"
    by simp
  have mx: "2 ^ 63 - 1 \<in> set (map Claim_ID (Claims (db (conn0 db2))))"
    by (simp add: conn0_def db2_def)
  have rx: "lookup (rx_map (Receivers (db (conn0 db2)))) (selected_rx ?form) = Inr 2"
    by (simp add: conn0_def tabs rx_map_db0 lookup_def)
  have fx: "lookup (fx_map (Food_Listings (db (conn0 db2)))) (selected_food ?form) = Inr 2"
    by (simp add: conn0_def tabs fx_map_db0 lookup_def)
  have ne: "Receivers (db (conn0 db2)) \<noteq> []" "Food_Listings (db (conn0 db2)) \<noteq> []"
    by (simp_all add: conn0_def tabs db0_def)
  from make_claim_assigned [OF ne 4 fx rx a, of ?now]
  have res: "snd (claim_flow (conn0 db2) ?form ?now) = Inr (Written (Some 4))"
    by (simp add: claim_flow_def)
  from claim_creation_inserts_one_row [OF 1 2 3 4 5 6]
  obtain x :: receiver and y :: food_listing and i c' where
    r: "lookup (rx_map (Receivers (db (conn0 db2)))) (selected_rx ?form) = Inr (Receiver_ID x)"
       "lookup (fx_map (Food_Listings (db (conn0 db2)))) (selected_food ?form) = Inr (Food_ID y)"
       "claim_flow (conn0 db2) ?form ?now = (c', Inr (Written (Some i)))"
       "executed c' = executed (conn0 db2) @
          [(insert_claim_sql,
            [IntV (Food_ID y), IntV (Receiver_ID x), TextV (claim_status ?form),
             TextV (strftime ?now)])]"
       "Claims (db c') = Claims (db (conn0 db2)) @
          [\<lparr>Claim_ID = i, c_Food_ID = Food_ID y, c_Receiver_ID = Receiver_ID x,
            Status = claim_status ?form, Timestamp = strftime ?now\<rparr>]"
       "Providers (db c') = Providers (db (conn0 db2))"
       "Receivers (db c') = Receivers (db (conn0 db2))"
       "Food_Listings (db c') = Food_Listings (db (conn0 db2))"
       "read_timestamp (strftime ?now) = Some ?now"
    by blast
  from r(1) rx have x: "Receiver_ID x = 2" by simp
  from r(2) fx have y: "Food_ID y = 2" by simp
  from r(3) res have i: "i = 4" by simp
  from r(3-8) have "\<exists>c'. claim_flow (conn0 db2) ?form ?now = (c', Inr (Written (Some 4))) \<and>
        executed c' =
          [(insert_claim_sql,
            [IntV 2, IntV 2, TextV ''Pending'', TextV ''2025-11-30 20:05:59''])] \<and>
        Claims (db c') = Claims db2 @
          [\<lparr>Claim_ID = 4, c_Food_ID = 2, c_Receiver_ID = 2, Status = ''Pending'',
            Timestamp = ''2025-11-30 20:05:59''\<rparr>] \<and>
        Providers (db c') = Providers db2 \<and> Receivers (db c') = Receivers db2 \<and>
        Food_Listings (db c') = Food_Listings db2"
    by (intro exI [of _ c']) (simp add: x y i strftime_evening conn0_def)
  moreover from r(9) have "read_timestamp ''2025-11-30 20:05:59'' = Some ?now"
    by (simp add: strftime_evening)
  moreover from 3 have "''Pending'' \<in> set status_opt" by simp
  ultimately show ?thesis using 1 2 5 f mx by blast
qed

text \<open>
  The frames of lines 53 and 54, as \<open>load_table\<close> returns them: one row of cells for each
  row of the table, so that \<open>df.empty\<close> holds of the frame exactly when the table has no
  row.
\<close>

lemma load_table_Receivers:
  "snd (load_table sqlite_execute c ''Receivers'') =
     Inr (Some \<lparr>columns = [''Receiver_ID'', ''Name'', ''City''],
                rows = map receiver_row (Receivers (db c))\<rparr>)"
proof -
  have "sqlite_execute (db c) ''SELECT * FROM Receivers'' [] =
      Inr (db c, \<lparr>result = ResultSet [''Receiver_ID'', ''Name'', ''City'']
                             (map receiver_row (Receivers (db c))), lastrowid = None\<rparr>)"
    by (simp add: sqlite_execute_def statements_def select_def)
  then show ?thesis
    using run_query_select [of sqlite_execute c "''SELECT * FROM Receivers''" "[]"]
    by (simp add: load_table_def description_def fetchall_def DataFrame_def receiver_row_def
        list_all_iff)
qed

lemma load_table_Food_Listings:
  "snd (load_table sqlite_execute c ''Food_Listings'') =
     Inr (Some \<lparr>columns = [''Food_ID'', ''Food_Name'', ''Quantity'', ''Expiry_Date'', ''Location'',
                           ''Food_Type'', ''Meal_Type'', ''Provider_ID''],
                rows = map food_row (Food_Listings (db c))\<rparr>)"
proof -
  have "sqlite_execute (db c) ''SELECT * FROM Food_Listings'' [] =
      Inr (db c, \<lparr>result = ResultSet [''Food_ID'', ''Food_Name'', ''Quantity'', ''Expiry_Date'',
                    ''Location'', ''Food_Type'', ''Meal_Type'', ''Provider_ID'']
                             (map food_row (Food_Listings (db c))), lastrowid = None\<rparr>)"
    by (simp add: sqlite_execute_def statements_def select_def)
  then show ?thesis
    using run_query_select [of sqlite_execute c "''SELECT * FROM Food_Listings''" "[]"]
    by (simp add: load_table_def description_def fetchall_def DataFrame_def food_row_def
        list_all_iff)
qed

lemma loaded_frame_empty:
  "df_empty \<lparr>columns = [''Receiver_ID'', ''Name'', ''City''], rows = map receiver_row rs\<rparr> \<longleftrightarrow> rs = []"
  "df_empty \<lparr>columns = [''Food_ID'', ''Food_Name'', ''Quantity'', ''Expiry_Date'', ''Location'',
                        ''Food_Type'', ''Meal_Type'', ''Provider_ID''],
             rows = map food_row fs\<rparr> \<longleftrightarrow> fs = []"
  by (simp_all add: df_empty_def)

text \<open>
  C9. The receivers frame and the listings frame are empty exactly when their tables have
  no row. When one of them is, the body of the claim tab is skipped: the run executes no
  statement and leaves the database as it was, so a run that changes the Claims table had
  both non-empty. When both have rows, both dictionaries have entries, and every option
  of either select box (every key of its dictionary) resolves to an identifier.
\<close>

theorem claim_tab_needs_both_tables:
  "(\<exists>df. snd (load_table sqlite_execute c ''Receivers'') = Inr (Some df) \<and>
      (df_empty df \<longleftrightarrow> Receivers (db c) = [])) \<and>
   (\<exists>df. snd (load_table sqlite_execute c ''Food_Listings'') = Inr (Some df) \<and>
      (df_empty df \<longleftrightarrow> Food_Listings (db c) = [])) \<and>
   (receivers_df = [] \<or> food_df = [] \<longrightarrow>
      make_claim c receivers_df food_df form now = (c, Inr Skipped)) \<and>
   (Receivers (db c) = [] \<or> Food_Listings (db c) = [] \<longrightarrow>
      claim_flow c form now = (c, Inr Skipped)) \<and>
   (Claims (db (fst (make_claim c receivers_df food_df form now))) \<noteq> Claims (db c) \<longrightarrow>
      receivers_df \<noteq> [] \<and> food_df \<noteq> []) \<and>
   (receivers_df \<noteq> [] \<and> food_df \<noteq> [] \<longrightarrow>
      rx_map receivers_df \<noteq> [] \<and> fx_map food_df \<noteq> [] \<and>
      (\<forall>k \<in> set (map fst (rx_map receivers_df)). \<exists>v. lookup (rx_map receivers_df) k = Inr v) \<and>
      (\<forall>k \<in> set (map fst (fx_map food_df)). \<exists>v. lookup (fx_map food_df) k = Inr v))"
proof -
  have 1: "receivers_df = [] \<or> food_df = [] \<longrightarrow>
      make_claim c receivers_df food_df form now = (c, Inr Skipped)"
    by (simp add: make_claim_skipped)
  have 2: "Receivers (db c) = [] \<or> Food_Listings (db c) = [] \<longrightarrow>
      claim_flow c form now = (c, Inr Skipped)"
    by (simp add: claim_flow_def make_claim_skipped)
  from 1 have 3: "Claims (db (fst (make_claim c receivers_df food_df form now))) \<noteq> Claims (db c) \<longrightarrow>
      receivers_df \<noteq> [] \<and> food_df \<noteq> []"
    by auto
  have 4: "\<forall>k \<in> set (map fst (rx_map receivers_df)). \<exists>v. lookup (rx_map receivers_df) k = Inr v"
    using lookup_key by blast
  have 5: "\<forall>k \<in> set (map fst (fx_map food_df)). \<exists>v. lookup (fx_map food_df) k = Inr v"
    using lookup_key by blast
  have 6: "\<exists>df. snd (load_table sqlite_execute c ''Receivers'') = Inr (Some df) \<and>
      (df_empty df \<longleftrightarrow> Receivers (db c) = [])"
    by (simp add: load_table_Receivers loaded_frame_empty)
  have 7: "\<exists>df. snd (load_table sqlite_execute c ''Food_Listings'') = Inr (Some df) \<and>
      (df_empty df \<longleftrightarrow> Food_Listings (db c) = [])"
    by (simp add: load_table_Food_Listings loaded_frame_empty)
  from 1 2 3 4 5 have "(receivers_df = [] \<or> food_df = [] \<longrightarrow>
      make_claim c receivers_df food_df form now = (c, Inr Skipped)) \<and>
   (Receivers (db c) = [] \<or> Food_Listings (db c) = [] \<longrightarrow>
      claim_flow c form now = (c, Inr Skipped)) \<and>
   (Claims (db (fst (make_claim c receivers_df food_df form now))) \<noteq> Claims (db c) \<longrightarrow>
      receivers_df \<noteq> [] \<and> food_df \<noteq> []) \<and>
   (receivers_df \<noteq> [] \<and> food_df \<noteq> [] \<longrightarrow>
      rx_map receivers_df \<noteq> [] \<and> fx_map food_df \<noteq> [] \<and>
      (\<forall>k \<in> set (map fst (rx_map receivers_df)). \<exists>v. lookup (rx_map receivers_df) k = Inr v) \<and>
      (\<forall>k \<in> set (map fst (fx_map food_df)). \<exists>v. lookup (fx_map food_df) k = Inr v))"
    by (simp add: rx_map_nonempty fx_map_nonempty)
  with 6 7 show ?thesis by blast
qed

theorem claim_tab_needs_both_tables_witness:
  "Receivers (db (conn0 (db0\<lparr>Receivers := []\<rparr>))) = [] \<and>
   claim_flow (conn0 (db0\<lparr>Receivers := []\<rparr>))
     \<lparr>selected_rx = ''Ravi (Pune)'', selected_food = ''Soup | Pune (Qty: 3)'',
       claim_status = ''Pending'', submit = True\<rparr>
     \<lparr>year = 2025, month = 3, day = 2, hour = 8, minute = 5, second = 9\<rparr> =
     (conn0 (db0\<lparr>Receivers := []\<rparr>), Inr Skipped) \<and>
   make_claim (conn0 db0) [] (Food_Listings db0)
     \<lparr>selected_rx = ''Ravi (Pune)'', selected_food = ''Soup | Pune (Qty: 3)'',
       claim_status = ''Pending'', submit = True\<rparr>
     \<lparr>year = 2025, month = 3, day = 2, hour = 8, minute = 5, second = 9\<rparr> =
     (conn0 db0, Inr Skipped) \<and>
   Claims (db (fst (make_claim (conn0 db0) (Receivers db0) (Food_Listings db0)
     \<lparr>selected_rx = ''Ravi (Pune)'', selected_food = ''Soup | Pune (Qty: 3)'',
       claim_status = ''Pending'', submit = True\<rparr>
     \<lparr>year = 2025, month = 3, day = 2, hour = 8, minute = 5, second = 9\<rparr>))) \<noteq> Claims (db (conn0 db0)) \<and>
   Receivers db0 \<noteq> [] \<and> Food_Listings db0 \<noteq> [] \<and>
   rx_map (Receivers db0) \<noteq> [] \<and> fx_map (Food_Listings db0) \<noteq> [] \<and>
   list_all (\<lambda>k. \<exists>v. lookup (rx_map (Receivers db0)) k = Inr v) (map fst (rx_map (Receivers db0))) \<and>
   list_all (\<lambda>k. \<exists>v. lookup (fx_map (Food_Listings db0)) k = Inr v)
     (map fst (fx_map (Food_Listings db0)))"
proof -
  let ?form = "\<lparr>selected_rx = ''Ravi (Pune)'', selected_food = ''Soup | Pune (Qty: 3)'',
       claim_status = ''Pending'', submit = True\<rparr>"
  let ?now = "\<lparr>year = 2025, month = 3, day = 2, hour = 8, minute = 5, second = 9\<rparr>"
  let ?c1 = "conn0 (db0\<lparr>Receivers := []\<rparr>)"
  have e: "Receivers (db ?c1) = []"
    by (simp add: conn0_def)
  have "make_claim (conn0 db0) (Receivers db0) (Food_Listings db0) ?form ?now =
          (\<lparr>db = (db (conn0 db0))\<lparr>Claims := Claims (db (conn0 db0)) @
                  [\<lparr>Claim_ID = 4, c_Food_ID = 3, c_Receiver_ID = 2,
                    Status = claim_status ?form, Timestamp = strftime ?now\<rparr>]\<rparr>,
              executed = executed (conn0 db0) @
                [(insert_claim_sql,
                  [IntV 3, IntV 2, TextV (claim_status ?form), TextV (strftime ?now)])]\<rparr>,
            Inr (Written (Some 4)))"
    by (rule make_claim_submit)
      (simp_all add: rx_map_db0 fx_map_db0 lookup_def conn0_def next_rowid_db0, simp_all add: db0_def)
  then have w: "Claims (db (fst (make_claim (conn0 db0) (Receivers db0) (Food_Listings db0) ?form ?now)))
      \<noteq> Claims (db (conn0 db0))"
    by simp
  note t1 = claim_tab_needs_both_tables
    [where receivers_df = "Receivers db0" and food_df = "Food_Listings db0" and c = "conn0 db0" and form = ?form and now = ?now]
  note t2 = claim_tab_needs_both_tables
    [where receivers_df = "[]" and food_df = "Food_Listings db0" and c = ?c1 and form = ?form and now = ?now]
  note t3 = claim_tab_needs_both_tables
    [where receivers_df = "[]" and food_df = "Food_Listings db0" and c = "conn0 db0" and form = ?form and now = ?now]
  from t1 w have ne: "Receivers db0 \<noteq> []" "Food_Listings db0 \<noteq> []" by blast+
  with t1 have m: "rx_map (Receivers db0) \<noteq> []" "fx_map (Food_Listings db0) \<noteq> []"
    "\<forall>k \<in> set (map fst (rx_map (Receivers db0))). \<exists>v. lookup (rx_map (Receivers db0)) k = Inr v"
    "\<forall>k \<in> set (map fst (fx_map (Food_Listings db0))). \<exists>v. lookup (fx_map (Food_Listings db0)) k = Inr v"
    by blast+
  from t2 e have s: "claim_flow ?c1 ?form ?now = (?c1, Inr Skipped)" by blast
  from t3 have s': "make_claim (conn0 db0) [] (Food_Listings db0) ?form ?now = (conn0 db0, Inr Skipped)"
    by blast
  from m(3,4) have
    "list_all (\<lambda>k. \<exists>v. lookup (rx_map (Receivers db0)) k = Inr v) (map fst (rx_map (Receivers db0)))"
    "list_all (\<lambda>k. \<exists>v. lookup (fx_map (Food_Listings db0)) k = Inr v)
       (map fst (fx_map (Food_Listings db0)))"
    by (simp_all only: list_all_iff)
  with e s s' w ne m(1,2) show ?thesis by blast
qed

text \<open>
  C10. Each dictionary has one entry for each display label. When two rows of the frame
  have the same label, the label resolves to the identifier of the last row that has it:
  for rows \<open>i < j\<close> with equal labels, \<open>j\<close> the last such row, the lookup of the label
  gives the identifier of row \<open>j\<close>, and a claim written with that label selected refers
  to row \<open>j\<close>. When the identifiers of the frame are distinct, the identifier of the
  earlier row \<open>i\<close> is no value of the dictionary at all, so no selection reaches it.
\<close>

theorem label_maps_keep_later_row:
  "(i < j \<and> j < length receivers_df \<and>
    rx_label (receivers_df ! i) = rx_label (receivers_df ! j) \<and>
    (\<forall>m. j < m \<and> m < length receivers_df \<longrightarrow>
       rx_label (receivers_df ! m) \<noteq> rx_label (receivers_df ! j)) \<longrightarrow>
      lookup (rx_map receivers_df) (rx_label (receivers_df ! i)) = Inr (Receiver_ID (receivers_df ! j)) \<and>
      (distinct (map Receiver_ID receivers_df) \<longrightarrow>
         Receiver_ID (receivers_df ! i) \<notin> snd ` set (rx_map receivers_df)) \<and>
      (selected_rx form = rx_label (receivers_df ! i) \<and>
       make_claim c receivers_df food_df form now = (c', Inr (Written w)) \<longrightarrow>
         c_Receiver_ID (last (Claims (db c'))) = Receiver_ID (receivers_df ! j))) \<and>
   (k < l \<and> l < length food_df \<and>
    fx_label (food_df ! k) = fx_label (food_df ! l) \<and>
    (\<forall>m. l < m \<and> m < length food_df \<longrightarrow>
       fx_label (food_df ! m) \<noteq> fx_label (food_df ! l)) \<longrightarrow>
      lookup (fx_map food_df) (fx_label (food_df ! k)) = Inr (Food_ID (food_df ! l)) \<and>
      (distinct (map Food_ID food_df) \<longrightarrow>
         Food_ID (food_df ! k) \<notin> snd ` set (fx_map food_df)) \<and>
      (selected_food form = fx_label (food_df ! k) \<and>
       make_claim c receivers_df food_df form now = (c', Inr (Written w)) \<longrightarrow>
         c_Food_ID (last (Claims (db c'))) = Food_ID (food_df ! l))) \<and>
   distinct (map fst (rx_map receivers_df)) \<and> distinct (map fst (fx_map food_df))"
proof -
  have rx: "lookup (rx_map receivers_df) (rx_label (receivers_df ! i)) = Inr (Receiver_ID (receivers_df ! j))"
    if "i < j" "j < length receivers_df" "rx_label (receivers_df ! i) = rx_label (receivers_df ! j)"
      "\<forall>m. j < m \<and> m < length receivers_df \<longrightarrow>
         rx_label (receivers_df ! m) \<noteq> rx_label (receivers_df ! j)"
    using comprehension_later_row [of i j receivers_df rx_label Receiver_ID] that
    by (simp add: lookup_def rx_map_def)
  have fx: "lookup (fx_map food_df) (fx_label (food_df ! k)) = Inr (Food_ID (food_df ! l))"
    if "k < l" "l < length food_df" "fx_label (food_df ! k) = fx_label (food_df ! l)"
      "\<forall>m. l < m \<and> m < length food_df \<longrightarrow> fx_label (food_df ! m) \<noteq> fx_label (food_df ! l)"
    using comprehension_later_row [of k l food_df fx_label Food_ID] that
    by (simp add: lookup_def fx_map_def)
  have rx_absent: "Receiver_ID (receivers_df ! i) \<notin> snd ` set (rx_map receivers_df)"
    if "i < j" "j < length receivers_df" "rx_label (receivers_df ! i) = rx_label (receivers_df ! j)"
      "distinct (map Receiver_ID receivers_df)"
    unfolding rx_map_def using that by (rule comprehension_earlier_row_absent)
  have fx_absent: "Food_ID (food_df ! k) \<notin> snd ` set (fx_map food_df)"
    if "k < l" "l < length food_df" "fx_label (food_df ! k) = fx_label (food_df ! l)"
      "distinct (map Food_ID food_df)"
    unfolding fx_map_def using that by (rule comprehension_earlier_row_absent)
  have rx_claim: "c_Receiver_ID (last (Claims (db c'))) = Receiver_ID (receivers_df ! j)"
    if "lookup (rx_map receivers_df) (rx_label (receivers_df ! i)) = Inr (Receiver_ID (receivers_df ! j))"
      "selected_rx form = rx_label (receivers_df ! i)"
      "make_claim c receivers_df food_df form now = (c', Inr (Written w))"
    using make_claim_written [OF that(3)] that(1,2) by auto
  have fx_claim: "c_Food_ID (last (Claims (db c'))) = Food_ID (food_df ! l)"
    if "lookup (fx_map food_df) (fx_label (food_df ! k)) = Inr (Food_ID (food_df ! l))"
      "selected_food form = fx_label (food_df ! k)"
      "make_claim c receivers_df food_df form now = (c', Inr (Written w))"
    using make_claim_written [OF that(3)] that(1,2) by auto
  have d: "distinct (map fst (rx_map receivers_df))" "distinct (map fst (fx_map food_df))"
    unfolding rx_map_def fx_map_def by (rule distinct_comprehension, simp)+
  from rx fx rx_absent fx_absent rx_claim fx_claim d show ?thesis
    by blast
qed

theorem label_maps_keep_later_row_witness:
  "rx_label (Receivers db0 ! 0) = rx_label (Receivers db0 ! 1) \<and>
   fx_label (Food_Listings db0 ! 0) = fx_label (Food_Listings db0 ! 3) \<and>
   Receiver_ID (Receivers db0 ! 0) = 1 \<and> Food_ID (Food_Listings db0 ! 0) = 1 \<and>
   distinct (map Receiver_ID (Receivers db0)) \<and> distinct (map Food_ID (Food_Listings db0)) \<and>
   lookup (rx_map (Receivers db0)) ''Ravi (Pune)'' = Inr 2 \<and>
   1 \<notin> snd ` set (rx_map (Receivers db0)) \<and>
   lookup (fx_map (Food_Listings db0)) ''Rice | Pune (Qty: 5)'' = Inr 4 \<and>
   1 \<notin> snd ` set (fx_map (Food_Listings db0)) \<and>
   c_Receiver_ID (last (Claims (db (fst (make_claim (conn0 db0) (Receivers db0) (Food_Listings db0)
     \<lparr>selected_rx = ''Ravi (Pune)'', selected_food = ''Rice | Pune (Qty: 5)'',
       claim_status = ''Completed'', submit = True\<rparr>
     \<lparr>year = 2025, month = 3, day = 2, hour = 8, minute = 5, second = 9\<rparr>))))) = 2 \<and>
   c_Food_ID (last (Claims (db (fst (make_claim (conn0 db0) (Receivers db0) (Food_Listings db0)
     \<lparr>selected_rx = ''Ravi (Pune)'', selected_food = ''Rice | Pune (Qty: 5)'',
       claim_status = ''Completed'', submit = True\<rparr>
     \<lparr>year = 2025, month = 3, day = 2, hour = 8, minute = 5, second = 9\<rparr>))))) = 4"
proof -
  let ?form = "\<lparr>selected_rx = ''Ravi (Pune)'', selected_food = ''Rice | Pune (Qty: 5)'',
       claim_status = ''Completed'', submit = True\<rparr>"
  let ?now = "\<lparr>year = 2025, month = 3, day = 2, hour = 8, minute = 5, second = 9\<rparr>"
  let ?c' = "\<lparr>db = (db (conn0 db0))\<lparr>Claims := Claims (db (conn0 db0)) @
                  [\<lparr>Claim_ID = 4, c_Food_ID = 4, c_Receiver_ID = 2,
                    Status = claim_status ?form, Timestamp = strftime ?now\<rparr>]\<rparr>,
              executed = executed (conn0 db0) @
                [(insert_claim_sql,
                  [IntV 4, IntV 2, TextV (claim_status ?form), TextV (strftime ?now)])]\<rparr>"
  have run: "make_claim (conn0 db0) (Receivers db0) (Food_Listings db0) ?form ?now =
               (?c', Inr (Written (Some 4)))"
    by (rule make_claim_submit)
      (simp_all add: rx_map_db0 fx_map_db0 lookup_def conn0_def next_rowid_db0, simp_all add: db0_def)
  have r0: "rx_label (Receivers db0 ! 0) = ''Ravi (Pune)''" "Receiver_ID (Receivers db0 ! 0) = 1"
    and r1: "rx_label (Receivers db0 ! 1) = ''Ravi (Pune)''" "Receiver_ID (Receivers db0 ! 1) = 2"
    and f0: "fx_label (Food_Listings db0 ! 0) = ''Rice | Pune (Qty: 5)''"
            "Food_ID (Food_Listings db0 ! 0) = 1"
    and f3: "fx_label (Food_Listings db0 ! 3) = ''Rice | Pune (Qty: 5)''"
            "Food_ID (Food_Listings db0 ! 3) = 4"
    by (simp_all add: db0_def rx_label_def fx_label_def str_int_def digits.simps digit_char_def)
  have len: "length (Receivers db0) = 3" "length (Food_Listings db0) = 4"
    by (simp_all add: db0_def)
  have d: "distinct (map Receiver_ID (Receivers db0))" "distinct (map Food_ID (Food_Listings db0))"
    by (simp_all add: db0_def)
  have lr: "\<forall>m. 1 < m \<and> m < length (Receivers db0) \<longrightarrow>
      rx_label (Receivers db0 ! m) \<noteq> rx_label (Receivers db0 ! 1)"
  proof (intro allI impI)
    fix m :: nat
    assume "1 < m \<and> m < length (Receivers db0)"
    with len have "m = 2" by simp
    then show "rx_label (Receivers db0 ! m) \<noteq> rx_label (Receivers db0 ! 1)"
      by (simp add: db0_def rx_label_def)
  qed
  have lf: "\<forall>m. 3 < m \<and> m < length (Food_Listings db0) \<longrightarrow>
      fx_label (Food_Listings db0 ! m) \<noteq> fx_label (Food_Listings db0 ! 3)"
    using len by auto
  note t = label_maps_keep_later_row
    [where i = 0 and j = 1 and receivers_df = "Receivers db0" and k = 0 and l = 3
       and food_df = "Food_Listings db0" and form = ?form and now = ?now and c = "conn0 db0"
       and c' = ?c' and w = "Some 4"]
  from t r0 r1 len lr d(1) have
    a: "lookup (rx_map (Receivers db0)) ''Ravi (Pune)'' = Inr 2"
       "1 \<notin> snd ` set (rx_map (Receivers db0))"
    by simp_all
  from t f0 f3 len lf d(2) have
    b: "lookup (fx_map (Food_Listings db0)) ''Rice | Pune (Qty: 5)'' = Inr 4"
       "1 \<notin> snd ` set (fx_map (Food_Listings db0))"
    by simp_all
  from t r0 r1 len lr run have
    c: "c_Receiver_ID (last (Claims (db ?c'))) = 2"
    by simp
  from t f0 f3 len lf run have
    e: "c_Food_ID (last (Claims (db ?c'))) = 4"
    by simp
  from c e run have
    "c_Receiver_ID (last (Claims (db (fst (make_claim (conn0 db0) (Receivers db0) (Food_Listings db0)
        ?form ?now))))) = 2"
    "c_Food_ID (last (Claims (db (fst (make_claim (conn0 db0) (Receivers db0) (Food_Listings db0)
        ?form ?now))))) = 4"
    by simp_all
  with a b d r0 r1 f0 f3 show ?thesis by simp
qed

end
